theory Spec2Isabelle
  imports Main
begin

section \<open>Python values and builtins used by the client\<close>

text \<open>
  Strings are lists of characters; a character stands for a code point below 256.
  Parsed JSON is a value of \<open>jvalue\<close>; a JSON object is an association list whose
  keys are looked up from the front.
\<close>

datatype jvalue =
    JNull
  | JBool bool
  | JNum int
  | JStr string
  | JArr "jvalue list"
  | JObj "(string \<times> jvalue) list"

text \<open>
  The exceptions that leave the functions of \<open>graph_client.py\<close>: the two the source
  raises itself (\<open>Exception\<close>, \<open>RuntimeError\<close>, each with its message) and those
  raised by the builtins and library calls it makes.
\<close>

datatype error =
    Exception string
  | RuntimeError string
  | JSONDecodeError
  | ValueError
  | KeyError string
  | TypeError
  | AttributeError
  | RecursionError
  | OverflowError
  | FileNotFoundError
  | IsADirectoryError
  | PermissionError

definition MAX_RETRIES :: int where
  "MAX_RETRIES = 3"

definition SCOPES :: "string list" where
  "SCOPES = [''Files.Read.All'', ''Files.ReadWrite'', ''Files.ReadWrite.All'', ''Mail.Send'']"

subsection \<open>\<open>str.strip\<close>, \<open>int(str)\<close> and \<open>str(int)\<close>\<close>

text \<open>The whitespace of \<open>str.strip\<close>, among the code points below 256.\<close>

definition py_isspace :: "char \<Rightarrow> bool" where
  "py_isspace c = ((of_char c :: nat) \<in> {9, 10, 11, 12, 13, 28, 29, 30, 31, 32, 133, 160})"

definition py_strip :: "string \<Rightarrow> string" where
  "py_strip s = rev (dropWhile py_isspace (rev (dropWhile py_isspace s)))"

definition digit_val :: "char \<Rightarrow> nat option" where
  "digit_val c =
     (let n = (of_char c :: nat) in if 48 \<le> n \<and> n \<le> 57 then Some (n - 48) else None)"

text \<open>
  The digits after the first one: a single underscore may stand between two digits.
\<close>

fun digits_acc :: "nat \<Rightarrow> string \<Rightarrow> nat option" where
  "digits_acc a [] = Some a"
| "digits_acc a (c # cs) =
     (if c = CHR ''_'' then
        (case cs of
           [] \<Rightarrow> None
         | d # ds \<Rightarrow>
             (case digit_val d of
                None \<Rightarrow> None
              | Some v \<Rightarrow> digits_acc (a * 10 + v) ds))
      else
        (case digit_val c of
           None \<Rightarrow> None
         | Some v \<Rightarrow> digits_acc (a * 10 + v) cs))"

text \<open>
  The interpreter refuses to convert a string of more than 4300 digits
  (\<open>sys.get_int_max_str_digits()\<close>); underscores are not counted.
\<close>

definition INT_MAX_STR_DIGITS :: nat where
  "INT_MAX_STR_DIGITS = 4300"

definition unsigned_int :: "string \<Rightarrow> nat option" where
  "unsigned_int s =
     (if INT_MAX_STR_DIGITS < length (filter (\<lambda>c. c \<noteq> CHR ''_'') s) then None
      else
        (case s of
           [] \<Rightarrow> None
         | d # ds \<Rightarrow> (case digit_val d of None \<Rightarrow> None | Some v \<Rightarrow> digits_acc v ds)))"

text \<open>
  The whitespace that \<open>int\<close> skips around the number: the ASCII whitespace (tab, line
  feed, vertical tab, form feed, carriage return, space) and, of the code points from 127
  on, those that are Unicode whitespace (U+0085 and U+00A0 below 256). Unlike
  \<open>str.strip\<close> it does not skip U+001C to U+001F.
\<close>

definition int_isspace :: "char \<Rightarrow> bool" where
  "int_isspace c = ((of_char c :: nat) \<in> {9, 10, 11, 12, 13, 32, 133, 160})"

definition int_strip :: "string \<Rightarrow> string" where
  "int_strip s = rev (dropWhile int_isspace (rev (dropWhile int_isspace s)))"

text \<open>
  \<open>int(s)\<close> for a string in base 10: surrounding whitespace is dropped, one sign is
  allowed. \<open>None\<close> stands for the \<open>ValueError\<close> that \<open>int\<close> raises.
\<close>

definition py_int :: "string \<Rightarrow> int option" where
  "py_int s =
     (case int_strip s of
        [] \<Rightarrow> None
      | c # cs \<Rightarrow>
          if c = CHR ''-'' then map_option (\<lambda>n. - int n) (unsigned_int cs)
          else if c = CHR ''+'' then map_option int (unsigned_int cs)
          else map_option int (unsigned_int (c # cs)))"

definition digit_char :: "nat \<Rightarrow> char" where
  "digit_char n = char_of (48 + n)"

fun str_nat :: "nat \<Rightarrow> string" where
  "str_nat n = (if n < 10 then [digit_char n] else str_nat (n div 10) @ [digit_char (n mod 10)])"

declare str_nat.simps [simp del]

text \<open>\<open>str(n)\<close>, also what an f-string writes for an integer.\<close>

definition py_str :: "int \<Rightarrow> string" where
  "py_str i = (if i < 0 then CHR ''-'' # str_nat (nat (- i)) else str_nat (nat i))"

text \<open>\<open>needle in haystack\<close> on strings.\<close>

fun is_prefix :: "string \<Rightarrow> string \<Rightarrow> bool" where
  "is_prefix [] ys = True"
| "is_prefix (x # xs) [] = False"
| "is_prefix (x # xs) (y # ys) = (x = y \<and> is_prefix xs ys)"

fun str_contains :: "string \<Rightarrow> string \<Rightarrow> bool" where
  "str_contains needle [] = (needle = [])"
| "str_contains needle (y # ys) = (is_prefix needle (y # ys) \<or> str_contains needle ys)"

subsection \<open>Subscripting and \<open>.get\<close> on a parsed JSON value\<close>

text \<open>
  \<open>data['values']\<close>: a dict without the key raises \<open>KeyError\<close>, a value that is no
  dict raises \<open>TypeError\<close>.
\<close>

definition subscript :: "jvalue \<Rightarrow> string \<Rightarrow> error + jvalue" where
  "subscript data k =
     (case data of
        JObj kvs \<Rightarrow> (case map_of kvs k of None \<Rightarrow> Inl (KeyError k) | Some v \<Rightarrow> Inr v)
      | _ \<Rightarrow> Inl TypeError)"

text \<open>
  \<open>data.get(k, default)\<close>: only a dict has \<open>get\<close>; any other value raises
  \<open>AttributeError\<close>.
\<close>

definition dict_get :: "jvalue \<Rightarrow> string \<Rightarrow> jvalue \<Rightarrow> error + jvalue" where
  "dict_get data k d =
     (case data of
        JObj kvs \<Rightarrow> (case map_of kvs k of None \<Rightarrow> Inr d | Some v \<Rightarrow> Inr v)
      | _ \<Rightarrow> Inl AttributeError)"

section \<open>The HTTP exchange\<close>

text \<open>
  A request as \<open>requests.get\<close> and \<open>requests.post\<close> send it, and the response object
  the client reads: \<open>resp_text\<close> is \<open>response.text\<close>, \<open>json_body\<close> is the result of
  \<open>response.json()\<close> (\<open>None\<close> when it raises a JSON decode error), \<open>headers\<close> is the
  dictionary of response headers, which \<open>requests\<close> looks up without regard to case:
  the key here is the header's name as the source spells it.
\<close>

record request =
  http_method :: string
  url :: string
  req_headers :: "(string \<times> string) list"
  json_payload :: "jvalue option"

record response =
  status_code :: int
  headers :: "string \<rightharpoonup> string"
  resp_text :: string
  json_body :: "jvalue option"

text \<open>
  The remote API is a function from the number of requests seen so far and the request
  to the response. The world records what the client did: every request it sent and
  every duration it slept. What the client prints is not recorded.
\<close>

type_synonym server = "nat \<Rightarrow> request \<Rightarrow> response"

record world =
  sent :: "request list"
  slept :: "int list"

definition http :: "server \<Rightarrow> request \<Rightarrow> world \<Rightarrow> response \<times> world" where
  "http srv rq w = (srv (length (sent w)) rq, w\<lparr>sent := sent w @ [rq]\<rparr>)"

text \<open>
  \<open>time.sleep(d)\<close> for an integer \<open>d\<close>: the duration is first converted to
  nanoseconds in a signed 64-bit integer, which raises \<open>OverflowError\<close> when it does not
  fit; a negative duration then raises \<open>ValueError\<close>.
\<close>

definition SLEEP_MAX :: int where
  "SLEEP_MAX = (2 ^ 63 - 1) div 1000000000"

definition sleep :: "int \<Rightarrow> world \<Rightarrow> error + world" where
  "sleep d w =
     (if d < - SLEEP_MAX \<or> SLEEP_MAX < d then Inl OverflowError
      else if d < 0 then Inl ValueError
      else Inr (w\<lparr>slept := slept w @ [d]\<rparr>))"

text \<open>\<open>int(response.headers.get('Retry-After', '30'))\<close>\<close>

definition retry_after :: "response \<Rightarrow> error + int" where
  "retry_after r =
     (case py_int (case headers r ''Retry-After'' of None \<Rightarrow> ''30'' | Some v \<Rightarrow> v) of
        None \<Rightarrow> Inl ValueError
      | Some d \<Rightarrow> Inr d)"

definition LOCK_MARKER :: string where
  "LOCK_MARKER = ''EditModeCannotAcquireLockTooManyRequests''"

section \<open>The client\<close>

text \<open>
  The fields of \<open>GraphClient\<close>. The token cache of the authentication library is
  opaque (\<open>'c\<close>).
\<close>

record 'c client =
  client_id :: string
  tenant_id :: string
  cache_file :: string
  sender_email :: string
  cache :: 'c
  max_retries :: int
  token :: string

definition bearer_headers :: "string \<Rightarrow> (string \<times> string) list" where
  "bearer_headers tok =
     [(''Authorization'', ''Bearer '' @ tok), (''Content-Type'', ''application/json'')]"

definition GRAPH :: string where
  "GRAPH = ''https://graph.microsoft.com/v1.0''"

subsection \<open>\<open>get_excel_rows\<close>\<close>

definition rows_request :: "string \<Rightarrow> string \<Rightarrow> string \<Rightarrow> request" where
  "rows_request excel_item_id excel_worksheet tok =
     \<lparr>http_method = ''GET'',
      url = GRAPH @ ''/me/drive/items/'' @ excel_item_id @ ''/workbook/worksheets/''
            @ excel_worksheet @ ''/usedRange'',
      req_headers = bearer_headers tok,
      json_payload = None\<rparr>"

function get_excel_rows ::
  "server \<Rightarrow> string \<Rightarrow> string \<Rightarrow> 'c client \<Rightarrow> world \<Rightarrow> (error + jvalue) \<times> 'c client \<times> world"
where
  "get_excel_rows srv excel_item_id excel_worksheet c w =
     (let rq = rows_request excel_item_id excel_worksheet (token c);
          response = fst (http srv rq w);
          w1 = snd (http srv rq w)
      in case json_body response of
           None \<Rightarrow> (Inl JSONDecodeError, c, w1)
         | Some data \<Rightarrow>
             if status_code response = 429 \<and> max_retries c > 0 then
               (let c1 = c\<lparr>max_retries := max_retries c - 1\<rparr> in
                case retry_after response of
                  Inl e \<Rightarrow> (Inl e, c1, w1)
                | Inr d \<Rightarrow>
                    (case sleep d w1 of
                       Inl e \<Rightarrow> (Inl e, c1, w1)
                     | Inr w2 \<Rightarrow> get_excel_rows srv excel_item_id excel_worksheet c1 w2))
             else if status_code response \<noteq> 200 then
               (Inl (Exception (''Failed to get Excel rows: '' @ resp_text response)), c, w1)
             else
               (case subscript data ''values'' of
                  Inl e \<Rightarrow> (Inl e, c, w1)
                | Inr rows \<Rightarrow> (Inr rows, c, w1)))"
  by pat_completeness auto
termination
  by (relation "measure (\<lambda>(srv, i, s, c, w). nat (max_retries c))") auto

subsection \<open>\<open>batch_update_excel_rows\<close>\<close>

text \<open>
  The loop over \<open>enumerate(rows)\<close>: \<open>idx\<close> is the index that \<open>enumerate\<close> hands out
  (from 0), \<open>request_list\<close> the list being appended to. A row is the pair of its row
  number and its cell values.
\<close>

fun build_requests ::
  "string \<Rightarrow> string \<Rightarrow> string \<Rightarrow> nat \<Rightarrow> (int \<times> jvalue list) list \<Rightarrow> jvalue list \<Rightarrow> jvalue list"
where
  "build_requests excel_item_id excel_worksheet end_column idx [] request_list = request_list"
| "build_requests excel_item_id excel_worksheet end_column idx (row # rows) request_list =
     (let row_number = fst row;
          row_data = snd row;
          sub_url = ''/me/drive/items/'' @ excel_item_id @ ''/workbook/worksheets(''
                    @ [CHR 0x27] @ excel_worksheet @ [CHR 0x27] @ '')/range(address=''
                    @ [CHR 0x27] @ ''A'' @ py_str row_number @ '':'' @ end_column
                    @ py_str row_number @ [CHR 0x27] @ '')''
      in build_requests excel_item_id excel_worksheet end_column (idx + 1) rows
           (request_list @
            [JObj [(''id'', JStr (py_str (int idx + 1))),
                   (''method'', JStr ''PATCH''),
                   (''url'', JStr sub_url),
                   (''body'', JObj [(''values'', JArr [JArr row_data])]),
                   (''headers'', JObj [(''Content-Type'', JStr ''application/json'')])]]))"

definition batch_request ::
  "string \<Rightarrow> string \<Rightarrow> (int \<times> jvalue list) list \<Rightarrow> string \<Rightarrow> string \<Rightarrow> request"
where
  "batch_request excel_item_id excel_worksheet rows end_column tok =
     \<lparr>http_method = ''POST'',
      url = GRAPH @ ''/$batch'',
      req_headers = bearer_headers tok,
      json_payload =
        Some (JObj [(''requests'',
                     JArr (build_requests excel_item_id excel_worksheet end_column 0 rows []))])\<rparr>"

text \<open>
  The retries of this function are not bounded by the retry budget (the budget is set
  back to \<open>MAX_RETRIES\<close> before the lock check reads it), so the recursion is bounded by
  the interpreter instead: \<open>depth\<close> is the number of frames left before Python raises
  \<open>RecursionError\<close>.
\<close>

fun batch_update_excel_rows ::
  "nat \<Rightarrow> server \<Rightarrow> string \<Rightarrow> string \<Rightarrow> (int \<times> jvalue list) list \<Rightarrow> string \<Rightarrow>
   'c client \<Rightarrow> world \<Rightarrow> (error + jvalue) \<times> 'c client \<times> world"
where
  "batch_update_excel_rows 0 srv excel_item_id excel_worksheet rows end_column c w =
     (Inl RecursionError, c, w)"
| "batch_update_excel_rows (Suc depth) srv excel_item_id excel_worksheet rows end_column c w =
     (let rq = batch_request excel_item_id excel_worksheet rows end_column (token c);
          response = fst (http srv rq w);
          w1 = snd (http srv rq w)
      in if status_code response = 429 \<and> max_retries c > 0 then
           (let c1 = c\<lparr>max_retries := max_retries c - 1\<rparr> in
            case retry_after response of
              Inl e \<Rightarrow> (Inl e, c1, w1)
            | Inr d \<Rightarrow>
                (case sleep d w1 of
                   Inl e \<Rightarrow> (Inl e, c1, w1)
                 | Inr w2 \<Rightarrow>
                     batch_update_excel_rows depth srv excel_item_id excel_worksheet rows
                       end_column c1 w2))
         else if status_code response \<noteq> 200 then
           (Inl (Exception (''Failed to batch update Excel: '' @ resp_text response)), c, w1)
         else
           (let c2 = c\<lparr>max_retries := MAX_RETRIES\<rparr> in
            if str_contains LOCK_MARKER (resp_text response) \<and> max_retries c2 > 0 then
              (let c3 = c2\<lparr>max_retries := max_retries c2 - 1\<rparr> in
               case sleep 10 w1 of
                 Inl e \<Rightarrow> (Inl e, c3, w1)
               | Inr w2 \<Rightarrow>
                   batch_update_excel_rows depth srv excel_item_id excel_worksheet rows
                     end_column c3 w2)
            else
              (let c4 = c2\<lparr>max_retries := MAX_RETRIES\<rparr> in
               case json_body response of
                 None \<Rightarrow> (Inl JSONDecodeError, c4, w1)
               | Some j \<Rightarrow> (Inr j, c4, w1))))"

subsection \<open>\<open>reorder_excel_rows\<close>\<close>

definition sort_request :: "string \<Rightarrow> string \<Rightarrow> jvalue \<Rightarrow> string \<Rightarrow> request" where
  "sort_request excel_item_id excel_worksheet sort_fields tok =
     \<lparr>http_method = ''POST'',
      url = GRAPH @ ''/me/drive/items/'' @ excel_item_id @ ''/workbook/worksheets/''
            @ excel_worksheet @ ''/usedRange/sort/apply'',
      req_headers = bearer_headers tok,
      json_payload = Some (JObj [(''fields'', sort_fields)])\<rparr>"

function reorder_excel_rows ::
  "server \<Rightarrow> string \<Rightarrow> string \<Rightarrow> jvalue \<Rightarrow> 'c client \<Rightarrow> world \<Rightarrow>
   (error + jvalue) \<times> 'c client \<times> world"
where
  "reorder_excel_rows srv excel_item_id excel_worksheet sort_fields c w =
     (let rq = sort_request excel_item_id excel_worksheet sort_fields (token c);
          response = fst (http srv rq w);
          w1 = snd (http srv rq w)
      in if status_code response = 429 \<and> max_retries c > 0 then
           (let c1 = c\<lparr>max_retries := max_retries c - 1\<rparr> in
            case retry_after response of
              Inl e \<Rightarrow> (Inl e, c1, w1)
            | Inr d \<Rightarrow>
                (case sleep d w1 of
                   Inl e \<Rightarrow> (Inl e, c1, w1)
                 | Inr w2 \<Rightarrow> reorder_excel_rows srv excel_item_id excel_worksheet sort_fields c1 w2))
         else if status_code response \<noteq> 200 then
           (Inl (Exception (''Failed to reorder Excel rows: '' @ resp_text response)), c, w1)
         else
           (let c2 = c\<lparr>max_retries := MAX_RETRIES\<rparr> in
            case json_body response of
              None \<Rightarrow> (Inl JSONDecodeError, c2, w1)
            | Some j \<Rightarrow> (Inr j, c2, w1)))"
  by pat_completeness auto
termination
  by (relation "measure (\<lambda>(srv, i, s, f, c, w). nat (max_retries c))") auto

subsection \<open>\<open>append_rows_to_table\<close>\<close>

definition append_request :: "string \<Rightarrow> string \<Rightarrow> jvalue \<Rightarrow> string \<Rightarrow> request" where
  "append_request excel_item_id table_name rows tok =
     \<lparr>http_method = ''POST'',
      url = GRAPH @ ''/me/drive/items/'' @ excel_item_id @ ''/workbook/tables/''
            @ table_name @ ''/rows/add'',
      req_headers = bearer_headers tok,
      json_payload = Some (JObj [(''values'', rows)])\<rparr>"

function append_rows_to_table ::
  "server \<Rightarrow> string \<Rightarrow> string \<Rightarrow> jvalue \<Rightarrow> 'c client \<Rightarrow> world \<Rightarrow>
   (error + jvalue) \<times> 'c client \<times> world"
where
  "append_rows_to_table srv excel_item_id table_name rows c w =
     (let rq = append_request excel_item_id table_name rows (token c);
          response = fst (http srv rq w);
          w1 = snd (http srv rq w)
      in if status_code response = 429 \<and> max_retries c > 0 then
           (let c1 = c\<lparr>max_retries := max_retries c - 1\<rparr> in
            case retry_after response of
              Inl e \<Rightarrow> (Inl e, c1, w1)
            | Inr d \<Rightarrow>
                (case sleep d w1 of
                   Inl e \<Rightarrow> (Inl e, c1, w1)
                 | Inr w2 \<Rightarrow> append_rows_to_table srv excel_item_id table_name rows c1 w2))
         else if str_contains LOCK_MARKER (resp_text response) \<and> max_retries c > 0 then
           (let c1 = c\<lparr>max_retries := max_retries c - 1\<rparr> in
            case sleep 10 w1 of
              Inl e \<Rightarrow> (Inl e, c1, w1)
            | Inr w2 \<Rightarrow> append_rows_to_table srv excel_item_id table_name rows c1 w2)
         else if status_code response \<noteq> 201 then
           (Inl (Exception (''Failed to append rows: '' @ resp_text response)), c, w1)
         else
           (let c2 = c\<lparr>max_retries := MAX_RETRIES\<rparr> in
            case json_body response of
              None \<Rightarrow> (Inl JSONDecodeError, c2, w1)
            | Some j \<Rightarrow> (Inr j, c2, w1)))"
  by pat_completeness auto
termination
  by (relation "measure (\<lambda>(srv, i, t, r, c, w). nat (max_retries c))") auto

subsection \<open>\<open>list_tables\<close>\<close>

definition tables_request :: "string \<Rightarrow> string \<Rightarrow> request" where
  "tables_request excel_item_id tok =
     \<lparr>http_method = ''GET'',
      url = GRAPH @ ''/me/drive/items/'' @ excel_item_id @ ''/workbook/tables'',
      req_headers = bearer_headers tok,
      json_payload = None\<rparr>"

function list_tables ::
  "server \<Rightarrow> string \<Rightarrow> 'c client \<Rightarrow> world \<Rightarrow> (error + jvalue) \<times> 'c client \<times> world"
where
  "list_tables srv excel_item_id c w =
     (let rq = tables_request excel_item_id (token c);
          response = fst (http srv rq w);
          w1 = snd (http srv rq w)
      in if status_code response = 429 \<and> max_retries c > 0 then
           (let c1 = c\<lparr>max_retries := max_retries c - 1\<rparr> in
            case retry_after response of
              Inl e \<Rightarrow> (Inl e, c1, w1)
            | Inr d \<Rightarrow>
                (case sleep d w1 of
                   Inl e \<Rightarrow> (Inl e, c1, w1)
                 | Inr w2 \<Rightarrow> list_tables srv excel_item_id c1 w2))
         else if status_code response \<noteq> 200 then
           (Inl (Exception (''Failed to list tables: '' @ resp_text response)), c, w1)
         else
           (let c2 = c\<lparr>max_retries := MAX_RETRIES\<rparr> in
            case json_body response of
              None \<Rightarrow> (Inl JSONDecodeError, c2, w1)
            | Some data \<Rightarrow>
                (case dict_get data ''value'' (JArr []) of
                   Inl e \<Rightarrow> (Inl e, c2, w1)
                 | Inr v \<Rightarrow> (Inr v, c2, w1))))"
  by pat_completeness auto
termination
  by (relation "measure (\<lambda>(srv, i, c, w). nat (max_retries c))") auto

section \<open>Credentials\<close>

text \<open>
  The authentication library (msal) and the identity provider behind it are outside the
  repository; what the client calls is a record of functions over the opaque cache.
  \<open>deserialize\<close> returns \<open>None\<close> when \<open>cache.deserialize(content)\<close> raises; the two
  acquisition calls return the token response (a dict, or \<open>None\<close>) and the cache as they
  leave it; \<open>serialize\<close> returns the blob and the cache as it leaves it.
\<close>

type_synonym token_response = "(string \<times> string) list"

record 'c msal =
  new_cache :: 'c
  deserialize :: "'c \<Rightarrow> string \<Rightarrow> 'c option"
  get_accounts :: "'c \<Rightarrow> string list"
  acquire_token_silent :: "string list \<Rightarrow> string \<Rightarrow> 'c \<Rightarrow> token_response option \<times> 'c"
  acquire_token_interactive :: "string list \<Rightarrow> 'c \<Rightarrow> token_response option \<times> 'c"
  has_state_changed :: "'c \<Rightarrow> bool"
  serialize :: "'c \<Rightarrow> string \<times> 'c"

text \<open>
  The file system. A path names a regular file whose text can be read, a regular file
  on which \<open>open\<close> or \<open>read\<close> for reading raises (bytes that are not UTF-8, no
  permission to read), or a directory. \<open>write_error\<close> is the answer of the operating
  system to creating the directories of a path and opening the path for writing: the
  error it raises, if any (no permission, a read-only medium).
\<close>

datatype fnode = Text string | Unreadable | Directory

record fsys =
  nodes :: "string \<rightharpoonup> fnode"
  write_error :: "string \<Rightarrow> error option"

text \<open>\<open>os.path.dirname\<close>\<close>

definition py_dirname :: "string \<Rightarrow> string" where
  "py_dirname p =
     (let head = rev (dropWhile (\<lambda>c. c \<noteq> CHR ''/'') (rev p))
      in if head \<noteq> [] \<and> \<not> list_all (\<lambda>c. c = CHR ''/'') head
         then rev (dropWhile (\<lambda>c. c = CHR ''/'') (rev head))
         else head)"

text \<open>
  \<open>os.makedirs(os.path.dirname(path), exist_ok=True)\<close> followed by
  \<open>open(path, "w")\<close> and the write: \<open>os.makedirs\<close> of the empty string raises
  \<open>FileNotFoundError\<close>, opening a directory for writing raises \<open>IsADirectoryError\<close>.
\<close>

definition write_text :: "string \<Rightarrow> string \<Rightarrow> fsys \<Rightarrow> error + fsys" where
  "write_text path content files =
     (if py_dirname path = [] then Inl FileNotFoundError
      else
        (case nodes files path of
           Some Directory \<Rightarrow> Inl IsADirectoryError
         | _ \<Rightarrow>
             (case write_error files path of
                Some e \<Rightarrow> Inl e
              | None \<Rightarrow> Inr (files\<lparr>nodes := (nodes files)(path \<mapsto> Text content)\<rparr>))))"

text \<open>\<open>not token_response or "access_token" not in token_response\<close>\<close>

definition no_token :: "token_response option \<Rightarrow> bool" where
  "no_token tr =
     (case tr of
        None \<Rightarrow> True
      | Some d \<Rightarrow> d = [] \<or> map_of d ''access_token'' = None)"

text \<open>\<open>token_response["access_token"]\<close>, read only where \<open>no_token\<close> is false.\<close>

definition access_token :: "token_response option \<Rightarrow> string" where
  "access_token tr =
     (case tr of
        None \<Rightarrow> []
      | Some d \<Rightarrow> (case map_of d ''access_token'' of None \<Rightarrow> [] | Some t \<Rightarrow> t))"

definition auth_failed :: "token_response option \<Rightarrow> error" where
  "auth_failed tr =
     RuntimeError (''Authentication failed: '' @
       (case tr of
          None \<Rightarrow> ''No response''
        | Some d \<Rightarrow>
            if d = [] then ''No response''
            else (case map_of d ''error_description'' of
                    None \<Rightarrow> ''No token returned''
                  | Some m \<Rightarrow> m)))"

text \<open>
  \<open>_save_cache_if_changed\<close>: the cache is serialised only once the file is open, so a
  write that raises leaves the cache as it was.
\<close>

definition save_cache_if_changed ::
  "'c msal \<Rightarrow> 'c client \<Rightarrow> fsys \<Rightarrow> (error + unit) \<times> 'c client \<times> fsys"
where
  "save_cache_if_changed lib c files =
     (if has_state_changed lib (cache c) then
        (let blob = fst (serialize lib (cache c));
             cache1 = snd (serialize lib (cache c))
         in case write_text (cache_file c) blob files of
              Inl e \<Rightarrow> (Inl e, c, files)
            | Inr files1 \<Rightarrow> (Inr (), c\<lparr>cache := cache1\<rparr>, files1))
      else (Inr (), c, files))"

definition get_token_or_authenticate ::
  "'c msal \<Rightarrow> 'c client \<Rightarrow> fsys \<Rightarrow> (error + unit) \<times> 'c client \<times> fsys"
where
  "get_token_or_authenticate lib c files =
     (let accounts = get_accounts lib (cache c);
          r0 = (case accounts of
                  [] \<Rightarrow> (None, cache c)
                | a # _ \<Rightarrow> acquire_token_silent lib SCOPES a (cache c));
          r1 = (if no_token (fst r0) then acquire_token_interactive lib SCOPES (snd r0) else r0);
          token_response = fst r1;
          c1 = c\<lparr>cache := snd r1\<rparr>
      in if no_token token_response then (Inl (auth_failed token_response), c1, files)
         else
           (case save_cache_if_changed lib c1 files of
              (Inl e, c2, files1) \<Rightarrow> (Inl e, c2, files1)
            | (Inr _, c2, files1) \<Rightarrow>
                (Inr (), c2\<lparr>token := access_token token_response\<rparr>, files1)))"

definition ensure_token ::
  "'c msal \<Rightarrow> 'c client \<Rightarrow> fsys \<Rightarrow> (error + unit) \<times> 'c client \<times> fsys"
where
  "ensure_token lib c files =
     (case get_accounts lib (cache c) of
        [] \<Rightarrow> get_token_or_authenticate lib c files
      | a # _ \<Rightarrow>
          (let r0 = acquire_token_silent lib SCOPES a (cache c) in
           if no_token (fst r0) then
             (let r1 = acquire_token_interactive lib SCOPES (snd r0);
                  c1 = c\<lparr>cache := snd r1\<rparr>
              in if no_token (fst r1) then (Inl (auth_failed (fst r1)), c1, files)
                 else
                   (case save_cache_if_changed lib c1 files of
                      (Inl e, c2, files1) \<Rightarrow> (Inl e, c2, files1)
                    | (Inr _, c2, files1) \<Rightarrow>
                        (Inr (), c2\<lparr>token := access_token (fst r1)\<rparr>, files1)))
           else
             (case save_cache_if_changed lib (c\<lparr>cache := snd r0\<rparr>) files of
                (Inl e, c2, files1) \<Rightarrow> (Inl e, c2, files1)
              | (Inr _, c2, files1) \<Rightarrow>
                  (Inr (), c2\<lparr>token := access_token (fst r0)\<rparr>, files1))))"

definition auth_headers ::
  "'c msal \<Rightarrow> 'c client \<Rightarrow> fsys \<Rightarrow>
   (error + (string \<times> string) list) \<times> 'c client \<times> fsys"
where
  "auth_headers lib c files =
     (case ensure_token lib c files of
        (Inl e, c1, files1) \<Rightarrow> (Inl e, c1, files1)
      | (Inr _, c1, files1) \<Rightarrow> (Inr (bearer_headers (token c1)), c1, files1))"

subsection \<open>\<open>send_email\<close>\<close>

definition mail_request ::
  "string \<Rightarrow> string \<Rightarrow> string \<Rightarrow> bool \<Rightarrow> (string \<times> string) list \<Rightarrow> request"
where
  "mail_request recipient_email subject body save_to_sent hdrs =
     \<lparr>http_method = ''POST'',
      url = GRAPH @ ''/me/sendMail'',
      req_headers = hdrs,
      json_payload =
        Some (JObj [(''message'',
                     JObj [(''subject'', JStr subject),
                           (''body'', JObj [(''contentType'', JStr ''Text''),
                                            (''content'', JStr body)]),
                           (''toRecipients'',
                            JArr [JObj [(''emailAddress'',
                                         JObj [(''address'', JStr recipient_email)])]])]),
                    (''saveToSentItems'', JBool save_to_sent)])\<rparr>"

definition send_email ::
  "'c msal \<Rightarrow> server \<Rightarrow> string \<Rightarrow> string \<Rightarrow> string \<Rightarrow> bool \<Rightarrow> 'c client \<Rightarrow> fsys \<Rightarrow> world \<Rightarrow>
   (error + bool) \<times> 'c client \<times> fsys \<times> world"
where
  "send_email lib srv recipient_email subject body save_to_sent c files w =
     (case auth_headers lib c files of
        (Inl e, c1, files1) \<Rightarrow> (Inl e, c1, files1, w)
      | (Inr hdrs, c1, files1) \<Rightarrow>
          (let rq = mail_request recipient_email subject body save_to_sent hdrs;
               resp = fst (http srv rq w);
               w1 = snd (http srv rq w)
           in if status_code resp \<noteq> 202 \<and> status_code resp \<noteq> 200 then
                (Inl (Exception (''Failed to send email: '' @ py_str (status_code resp) @ '' ''
                                 @ resp_text resp)),
                 c1, files1, w1)
              else (Inr True, c1, files1, w1)))"

subsection \<open>Construction\<close>

text \<open>
  The cache as \<open>__init__\<close> loads it: the new cache, replaced by the deserialised file
  only when the file exists, can be read, is not blank and deserialises. Every failure on
  the way is caught.
\<close>

definition load_cache :: "'c msal \<Rightarrow> string \<Rightarrow> fsys \<Rightarrow> 'c" where
  "load_cache lib path files =
     (case nodes files path of
        None \<Rightarrow> new_cache lib
      | Some Unreadable \<Rightarrow> new_cache lib
      | Some Directory \<Rightarrow> new_cache lib
      | Some (Text content) \<Rightarrow>
          if py_strip content \<noteq> [] then
            (case deserialize lib (new_cache lib) content of
               None \<Rightarrow> new_cache lib
             | Some loaded \<Rightarrow> loaded)
          else new_cache lib)"

text \<open>
  \<open>GraphClient(...)\<close>: the token field does not exist before the first acquisition
  sets it; the empty string stands for that, and no client is returned when the
  acquisition raises.
\<close>

definition init ::
  "'c msal \<Rightarrow> string \<Rightarrow> string \<Rightarrow> string \<Rightarrow> string \<Rightarrow> fsys \<Rightarrow> (error + 'c client) \<times> fsys"
where
  "init lib cid tid path sender files =
     (let c0 = \<lparr>client_id = cid, tenant_id = tid, cache_file = path, sender_email = sender,
                cache = load_cache lib path files, max_retries = MAX_RETRIES, token = []\<rparr>
      in case get_token_or_authenticate lib c0 files of
           (Inl e, c1, files1) \<Rightarrow> (Inl e, files1)
         | (Inr _, c1, files1) \<Rightarrow> (Inr c1, files1))"

subsection \<open>\<open>authenticate\<close> of \<open>authenticate.py\<close>\<close>


section \<open>Notions used to state the properties\<close>

text \<open>The delay a response names: its \<open>Retry-After\<close> header, 30 when it has none.\<close>

definition delay_of :: "response \<Rightarrow> int" where
  "delay_of r = (case retry_after r of Inl _ \<Rightarrow> 0 | Inr d \<Rightarrow> d)"

text \<open>
  A throttling response whose delay can be slept: status 429 and a \<open>Retry-After\<close> header
  that is absent or parses to a number of seconds that \<open>time.sleep\<close> accepts.
\<close>

definition throttled_ok :: "response \<Rightarrow> bool" where
  "throttled_ok r =
     (status_code r = 429 \<and>
      (case retry_after r of Inl _ \<Rightarrow> False | Inr d \<Rightarrow> 0 \<le> d \<and> d \<le> SLEEP_MAX))"

text \<open>A throttling response whose \<open>Retry-After\<close> header is present and no integer.\<close>

definition unparsable_retry_after :: "response \<Rightarrow> bool" where
  "unparsable_retry_after r =
     (status_code r = 429 \<and>
      (case headers r ''Retry-After'' of None \<Rightarrow> False | Some v \<Rightarrow> py_int v = None))"



section \<open>Example environments\<close>

definition reply :: "int \<Rightarrow> string \<Rightarrow> jvalue option \<Rightarrow> response" where
  "reply code body j =
     \<lparr>status_code = code, headers = Map.empty, resp_text = body, json_body = j\<rparr>"

definition reply_after :: "string \<Rightarrow> response" where
  "reply_after v =
     \<lparr>status_code = 429, headers = [''Retry-After'' \<mapsto> v], resp_text = ''null'',
      json_body = Some JNull\<rparr>"

text \<open>A server that gives the same response to every request.\<close>

definition always :: "response \<Rightarrow> server" where
  "always r n rq = r"

text \<open>A server that gives one response to the first request and another to all later ones.\<close>

definition first_then :: "response \<Rightarrow> response \<Rightarrow> server" where
  "first_then r0 r n rq = (if n = 0 then r0 else r)"

text \<open>A server that throttles every request; only its first response names a delay.\<close>

definition throttling_server :: server where
  "throttling_server n rq = (if n = 0 then reply_after ''7'' else reply 429 ''null'' (Some JNull))"

text \<open>A server that throttles the first request and then answers with an empty range.\<close>

definition empty_range :: response where
  "empty_range =
     reply 200 (''{'' @ [CHR 0x22] @ ''values'' @ [CHR 0x22] @ '': []}'')
       (Some (JObj [(''values'', JArr [])]))"

definition rows_server :: server where
  "rows_server n rq = (if n = 0 then reply 429 ''null'' (Some JNull) else empty_range)"

text \<open>A server whose throttling responses give the retry time as an HTTP date.\<close>

definition http_date_server :: server where
  "http_date_server n rq = reply_after ''Wed, 21 Oct 2015 07:28:00 GMT''"

definition lock_body :: string where
  "lock_body = ''EditModeCannotAcquireLockTooManyRequests''"

definition world0 :: world where
  "world0 = \<lparr>sent = [], slept = []\<rparr>"

text \<open>
  The cache file beside the module, as \<open>CACHE_FILE\<close> joins it, and file systems in which
  every write is permitted: an empty one, one whose cache file holds text that is no
  cache, one whose cache file cannot be read, and one with a directory at that path.
\<close>

definition cache_path :: string where
  "cache_path = ''/app/graph/msal_token_cache.bin''"

definition permitted :: "string \<Rightarrow> error option" where
  "permitted p = None"

definition no_files :: fsys where
  "no_files = \<lparr>nodes = Map.empty, write_error = permitted\<rparr>"



definition directory_files :: fsys where
  "directory_files = \<lparr>nodes = [cache_path \<mapsto> Directory], write_error = permitted\<rparr>"

text \<open>
  An authentication library whose cache is a changed flag and the list of accounts:
  the interactive flow signs the user in with token \<open>t0\<close>, a later silent refresh
  yields \<open>t1\<close>; only the blob it wrote itself deserialises.
\<close>

definition example_lib :: "(bool \<times> string list) msal" where
  "example_lib =
     \<lparr>new_cache = (False, []),
      deserialize = (\<lambda>c s. if s = ''blob'' then Some (False, [''user'']) else None),
      get_accounts = snd,
      acquire_token_silent = (\<lambda>scopes a c. (Some [(''access_token'', ''t1'')], c)),
      acquire_token_interactive =
        (\<lambda>scopes c. (Some [(''access_token'', ''t0'')], (True, [''user'']))),
      has_state_changed = fst,
      serialize = (\<lambda>c. (''blob'', (False, snd c)))\<rparr>"

text \<open>The client that \<open>init\<close> returns with this library when there is no cache file.\<close>

definition example_client :: "(bool \<times> string list) client" where
  "example_client =
     \<lparr>client_id = ''client'', tenant_id = ''tenant'', cache_file = cache_path,
      sender_email = [], cache = (False, [''user'']), max_retries = MAX_RETRIES,
      token = ''t0''\<rparr>"

section \<open>Properties\<close>

declare get_excel_rows.simps [simp del]
declare reorder_excel_rows.simps [simp del]
declare append_rows_to_table.simps [simp del]
declare list_tables.simps [simp del]
declare batch_update_excel_rows.simps [simp del]

subsection \<open>Evaluating the builtins and the example environments\<close>

lemma SLEEP_MAX_val: "SLEEP_MAX = 9223372036"
  by (simp add: SLEEP_MAX_def)

lemma sleep_ok: "0 \<le> d \<Longrightarrow> d \<le> SLEEP_MAX \<Longrightarrow> sleep d w = Inr (w\<lparr>slept := slept w @ [d]\<rparr>)"
  by (simp add: sleep_def SLEEP_MAX_val)

lemma sleep_10: "sleep 10 w = Inr (w\<lparr>slept := slept w @ [10]\<rparr>)"
  by (simp add: sleep_ok SLEEP_MAX_val)

lemma sleep_sent: "sleep d w = Inr w2 \<Longrightarrow> sent w2 = sent w \<and> slept w2 = slept w @ [d]"
  by (auto simp: sleep_def split: if_splits)

lemma py_int_7: "py_int ''7'' = Some 7" by code_simp
lemma py_int_30: "py_int ''30'' = Some 30" by code_simp
lemma py_int_http_date: "py_int ''Wed, 21 Oct 2015 07:28:00 GMT'' = None" by code_simp
lemma py_int_separator: "py_int [CHR 0x1C, CHR ''7''] = None" by code_simp
lemma py_str_429: "py_str 429 = ''429''" by code_simp
lemma py_str_500: "py_str 500 = ''500''" by code_simp
lemma py_str_201: "py_str 201 = ''201''" by code_simp

lemma py_dirname_cache_path: "py_dirname cache_path = ''/app/graph''"
  unfolding cache_path_def by code_simp

lemma nat_MAX_RETRIES: "nat MAX_RETRIES = 3" "MAX_RETRIES = int 3"
  by (simp_all add: MAX_RETRIES_def)

lemma throttling_server_ok: "throttled_ok (throttling_server n rq)"
  by (simp add: throttling_server_def throttled_ok_def reply_def reply_after_def retry_after_def
      py_int_7 py_int_30 SLEEP_MAX_val)

lemma throttling_server_delay:
  "delay_of (throttling_server n rq) = (if n = 0 then 7 else 30)"
  by (simp add: throttling_server_def delay_of_def reply_def reply_after_def retry_after_def
      py_int_7 py_int_30)

lemma throttling_server_json: "json_body (throttling_server n rq) \<noteq> None"
  by (simp add: throttling_server_def reply_def reply_after_def)

lemma throttling_server_text: "resp_text (throttling_server n rq) = ''null''"
  by (simp add: throttling_server_def reply_def reply_after_def)

lemma throttling_server_status: "status_code (throttling_server n rq) = 429"
  by (simp add: throttling_server_def reply_def reply_after_def)

lemma example_auth_headers:
  "auth_headers example_lib example_client files =
     (Inr (bearer_headers ''t1''), example_client\<lparr>token := ''t1''\<rparr>, files)"
  by (simp add: auth_headers_def ensure_token_def example_lib_def example_client_def
      save_cache_if_changed_def no_token_def access_token_def Let_def)

lemma example_init:
  "init example_lib ''client'' ''tenant'' cache_path [] no_files =
     (Inr example_client,
      \<lparr>nodes = [cache_path \<mapsto> Text ''blob''], write_error = permitted\<rparr>)"
  by (simp add: init_def load_cache_def get_token_or_authenticate_def example_lib_def
      example_client_def save_cache_if_changed_def no_token_def access_token_def Let_def
      write_text_def py_dirname_cache_path no_files_def permitted_def)

subsection \<open>Throttling until the budget is used up\<close>

lemma throttled_okD:
  "throttled_ok r \<Longrightarrow>
   status_code r = 429 \<and> retry_after r = Inr (delay_of r) \<and> 0 \<le> delay_of r \<and>
   delay_of r \<le> SLEEP_MAX"
  by (auto simp: throttled_ok_def delay_of_def split: sum.splits)

lemma upt_shift: "map f [0..<Suc b] = f 0 # map (\<lambda>i. f (Suc i)) [0..<b]"
  by (simp only: upt_conv_Cons[of 0 "Suc b"] map_Suc_upt[symmetric]) (simp add: comp_def)

lemma get_excel_rows_throttled:
  assumes "\<And>n. throttled_ok (srv n (rows_request item ws (token c)))"
    and "\<And>n. json_body (srv n (rows_request item ws (token c))) \<noteq> None"
  shows "max_retries c = int b \<Longrightarrow>
     get_excel_rows srv item ws c w =
       (Inl (Exception (''Failed to get Excel rows: '' @ resp_text (srv (length (sent w) + b) (rows_request item ws (token c))))),
        c\<lparr>max_retries := 0\<rparr>,
        w\<lparr>sent := sent w @ replicate (Suc b) (rows_request item ws (token c)),
          slept := slept w @ map (\<lambda>i. delay_of (srv (length (sent w) + i) (rows_request item ws (token c)))) [0..<b]\<rparr>)"
  using assms
proof (induction b arbitrary: c w)
  case 0
  have "c\<lparr>max_retries := max_retries c\<rparr> = c" by simp
  then have c0: "c\<lparr>max_retries := 0\<rparr> = c" using "0.prems"(1) by simp
  obtain j where j: "json_body (srv (length (sent w)) (rows_request item ws (token c))) = Some j"
    using "0.prems"(3)[of "length (sent w)"] by auto
  show ?case
    using throttled_okD[OF "0.prems"(2)[of "length (sent w)"]] "0.prems"(1) j
    by (subst get_excel_rows.simps) (simp add: http_def Let_def c0)
next
  case (Suc b)
  let ?rq = "rows_request item ws (token c)"
  let ?r = "srv (length (sent w)) ?rq"
  let ?c1 = "c\<lparr>max_retries := max_retries c - 1\<rparr>"
  let ?w2 = "w\<lparr>sent := sent w @ [?rq], slept := slept w @ [delay_of ?r]\<rparr>"
  have r: "status_code ?r = 429" "retry_after ?r = Inr (delay_of ?r)" "0 \<le> delay_of ?r"
    "delay_of ?r \<le> SLEEP_MAX"
    using throttled_okD[OF Suc.prems(2)[of "length (sent w)"]] by simp_all
  obtain j where j: "json_body ?r = Some j"
    using Suc.prems(3)[of "length (sent w)"] by auto
  have step: "get_excel_rows srv item ws c w = get_excel_rows srv item ws ?c1 ?w2"
    using r j Suc.prems(1) by (subst get_excel_rows.simps) (auto simp add: http_def sleep_ok Let_def)
  have ih: "get_excel_rows srv item ws ?c1 ?w2 =
      (Inl (Exception (''Failed to get Excel rows: '' @ resp_text (srv (length (sent ?w2) + b) (rows_request item ws (token ?c1))))),
        ?c1\<lparr>max_retries := 0\<rparr>,
        ?w2\<lparr>sent := sent ?w2 @ replicate (Suc b) (rows_request item ws (token ?c1)),
          slept := slept ?w2 @ map (\<lambda>i. delay_of (srv (length (sent ?w2) + i) (rows_request item ws (token ?c1)))) [0..<b]\<rparr>)"
    using Suc.prems by (intro Suc.IH) simp_all
  show ?case
    unfolding step ih by (simp add: upt_shift replicate_append_same del: upt_Suc)
qed

lemma reorder_excel_rows_throttled:
  assumes "\<And>n. throttled_ok (srv n (sort_request item ws fs (token c)))"
  shows "max_retries c = int b \<Longrightarrow>
     reorder_excel_rows srv item ws fs c w =
       (Inl (Exception (''Failed to reorder Excel rows: '' @ resp_text (srv (length (sent w) + b) (sort_request item ws fs (token c))))),
        c\<lparr>max_retries := 0\<rparr>,
        w\<lparr>sent := sent w @ replicate (Suc b) (sort_request item ws fs (token c)),
          slept := slept w @ map (\<lambda>i. delay_of (srv (length (sent w) + i) (sort_request item ws fs (token c)))) [0..<b]\<rparr>)"
  using assms
proof (induction b arbitrary: c w)
  case 0
  have "c\<lparr>max_retries := max_retries c\<rparr> = c" by simp
  then have c0: "c\<lparr>max_retries := 0\<rparr> = c" using "0.prems"(1) by simp
  show ?case
    using throttled_okD[OF "0.prems"(2)[of "length (sent w)"]] "0.prems"(1)
    by (subst reorder_excel_rows.simps) (auto simp add: http_def Let_def c0)
next
  case (Suc b)
  let ?rq = "sort_request item ws fs (token c)"
  let ?r = "srv (length (sent w)) ?rq"
  let ?c1 = "c\<lparr>max_retries := max_retries c - 1\<rparr>"
  let ?w2 = "w\<lparr>sent := sent w @ [?rq], slept := slept w @ [delay_of ?r]\<rparr>"
  have r: "status_code ?r = 429" "retry_after ?r = Inr (delay_of ?r)" "0 \<le> delay_of ?r"
    "delay_of ?r \<le> SLEEP_MAX"
    using throttled_okD[OF Suc.prems(2)[of "length (sent w)"]] by simp_all
  have step: "reorder_excel_rows srv item ws fs c w = reorder_excel_rows srv item ws fs ?c1 ?w2"
    using r Suc.prems(1) by (subst reorder_excel_rows.simps) (auto simp add: http_def sleep_ok Let_def)
  have ih: "reorder_excel_rows srv item ws fs ?c1 ?w2 =
      (Inl (Exception (''Failed to reorder Excel rows: '' @ resp_text (srv (length (sent ?w2) + b) (sort_request item ws fs (token ?c1))))),
        ?c1\<lparr>max_retries := 0\<rparr>,
        ?w2\<lparr>sent := sent ?w2 @ replicate (Suc b) (sort_request item ws fs (token ?c1)),
          slept := slept ?w2 @ map (\<lambda>i. delay_of (srv (length (sent ?w2) + i) (sort_request item ws fs (token ?c1)))) [0..<b]\<rparr>)"
    using Suc.prems by (intro Suc.IH) simp_all
  show ?case
    unfolding step ih by (simp add: upt_shift replicate_append_same del: upt_Suc)
qed

lemma append_rows_to_table_throttled:
  assumes "\<And>n. throttled_ok (srv n (append_request item tbl rows (token c)))"
  shows "max_retries c = int b \<Longrightarrow>
     append_rows_to_table srv item tbl rows c w =
       (Inl (Exception (''Failed to append rows: '' @ resp_text (srv (length (sent w) + b) (append_request item tbl rows (token c))))),
        c\<lparr>max_retries := 0\<rparr>,
        w\<lparr>sent := sent w @ replicate (Suc b) (append_request item tbl rows (token c)),
          slept := slept w @ map (\<lambda>i. delay_of (srv (length (sent w) + i) (append_request item tbl rows (token c)))) [0..<b]\<rparr>)"
  using assms
proof (induction b arbitrary: c w)
  case 0
  have "c\<lparr>max_retries := max_retries c\<rparr> = c" by simp
  then have c0: "c\<lparr>max_retries := 0\<rparr> = c" using "0.prems"(1) by simp
  show ?case
    using throttled_okD[OF "0.prems"(2)[of "length (sent w)"]] "0.prems"(1)
    by (subst append_rows_to_table.simps) (auto simp add: http_def Let_def c0)
next
  case (Suc b)
  let ?rq = "append_request item tbl rows (token c)"
  let ?r = "srv (length (sent w)) ?rq"
  let ?c1 = "c\<lparr>max_retries := max_retries c - 1\<rparr>"
  let ?w2 = "w\<lparr>sent := sent w @ [?rq], slept := slept w @ [delay_of ?r]\<rparr>"
  have r: "status_code ?r = 429" "retry_after ?r = Inr (delay_of ?r)" "0 \<le> delay_of ?r"
    "delay_of ?r \<le> SLEEP_MAX"
    using throttled_okD[OF Suc.prems(2)[of "length (sent w)"]] by simp_all
  have step: "append_rows_to_table srv item tbl rows c w = append_rows_to_table srv item tbl rows ?c1 ?w2"
    using r Suc.prems(1) by (subst append_rows_to_table.simps) (auto simp add: http_def sleep_ok Let_def)
  have ih: "append_rows_to_table srv item tbl rows ?c1 ?w2 =
      (Inl (Exception (''Failed to append rows: '' @ resp_text (srv (length (sent ?w2) + b) (append_request item tbl rows (token ?c1))))),
        ?c1\<lparr>max_retries := 0\<rparr>,
        ?w2\<lparr>sent := sent ?w2 @ replicate (Suc b) (append_request item tbl rows (token ?c1)),
          slept := slept ?w2 @ map (\<lambda>i. delay_of (srv (length (sent ?w2) + i) (append_request item tbl rows (token ?c1)))) [0..<b]\<rparr>)"
    using Suc.prems by (intro Suc.IH) simp_all
  show ?case
    unfolding step ih by (simp add: upt_shift replicate_append_same del: upt_Suc)
qed

lemma list_tables_throttled:
  assumes "\<And>n. throttled_ok (srv n (tables_request item (token c)))"
  shows "max_retries c = int b \<Longrightarrow>
     list_tables srv item c w =
       (Inl (Exception (''Failed to list tables: '' @ resp_text (srv (length (sent w) + b) (tables_request item (token c))))),
        c\<lparr>max_retries := 0\<rparr>,
        w\<lparr>sent := sent w @ replicate (Suc b) (tables_request item (token c)),
          slept := slept w @ map (\<lambda>i. delay_of (srv (length (sent w) + i) (tables_request item (token c)))) [0..<b]\<rparr>)"
  using assms
proof (induction b arbitrary: c w)
  case 0
  have "c\<lparr>max_retries := max_retries c\<rparr> = c" by simp
  then have c0: "c\<lparr>max_retries := 0\<rparr> = c" using "0.prems"(1) by simp
  show ?case
    using throttled_okD[OF "0.prems"(2)[of "length (sent w)"]] "0.prems"(1)
    by (subst list_tables.simps) (auto simp add: http_def Let_def c0)
next
  case (Suc b)
  let ?rq = "tables_request item (token c)"
  let ?r = "srv (length (sent w)) ?rq"
  let ?c1 = "c\<lparr>max_retries := max_retries c - 1\<rparr>"
  let ?w2 = "w\<lparr>sent := sent w @ [?rq], slept := slept w @ [delay_of ?r]\<rparr>"
  have r: "status_code ?r = 429" "retry_after ?r = Inr (delay_of ?r)" "0 \<le> delay_of ?r"
    "delay_of ?r \<le> SLEEP_MAX"
    using throttled_okD[OF Suc.prems(2)[of "length (sent w)"]] by simp_all
  have step: "list_tables srv item c w = list_tables srv item ?c1 ?w2"
    using r Suc.prems(1) by (subst list_tables.simps) (auto simp add: http_def sleep_ok Let_def)
  have ih: "list_tables srv item ?c1 ?w2 =
      (Inl (Exception (''Failed to list tables: '' @ resp_text (srv (length (sent ?w2) + b) (tables_request item (token ?c1))))),
        ?c1\<lparr>max_retries := 0\<rparr>,
        ?w2\<lparr>sent := sent ?w2 @ replicate (Suc b) (tables_request item (token ?c1)),
          slept := slept ?w2 @ map (\<lambda>i. delay_of (srv (length (sent ?w2) + i) (tables_request item (token ?c1)))) [0..<b]\<rparr>)"
    using Suc.prems by (intro Suc.IH) simp_all
  show ?case
    unfolding step ih by (simp add: upt_shift replicate_append_same del: upt_Suc)
qed

lemma batch_update_excel_rows_throttled:
  assumes "\<And>n. throttled_ok (srv n (batch_request item ws rows ec (token c)))"
  shows "max_retries c = int b \<Longrightarrow> b < depth \<Longrightarrow>
     batch_update_excel_rows depth srv item ws rows ec c w =
       (Inl (Exception (''Failed to batch update Excel: '' @
               resp_text (srv (length (sent w) + b) (batch_request item ws rows ec (token c))))),
        c\<lparr>max_retries := 0\<rparr>,
        w\<lparr>sent := sent w @ replicate (Suc b) (batch_request item ws rows ec (token c)),
          slept := slept w @ map (\<lambda>i. delay_of (srv (length (sent w) + i)
                     (batch_request item ws rows ec (token c)))) [0..<b]\<rparr>)"
  using assms
proof (induction b arbitrary: c w depth)
  case 0
  then obtain d where d: "depth = Suc d" by (cases depth) auto
  have "c\<lparr>max_retries := max_retries c\<rparr> = c" by simp
  then have c0: "c\<lparr>max_retries := 0\<rparr> = c" using "0.prems"(1) by simp
  show ?case
    using throttled_okD[OF "0.prems"(3)[of "length (sent w)"]] "0.prems"(1)
    unfolding d by (subst batch_update_excel_rows.simps) (auto simp add: http_def Let_def c0)
next
  case (Suc b)
  then obtain d where d: "depth = Suc d" and bd: "b < d" by (cases depth) auto
  let ?rq = "batch_request item ws rows ec (token c)"
  let ?r = "srv (length (sent w)) ?rq"
  let ?c1 = "c\<lparr>max_retries := max_retries c - 1\<rparr>"
  let ?w2 = "w\<lparr>sent := sent w @ [?rq], slept := slept w @ [delay_of ?r]\<rparr>"
  have r: "status_code ?r = 429" "retry_after ?r = Inr (delay_of ?r)" "0 \<le> delay_of ?r"
    "delay_of ?r \<le> SLEEP_MAX"
    using throttled_okD[OF Suc.prems(3)[of "length (sent w)"]] by simp_all
  have step: "batch_update_excel_rows depth srv item ws rows ec c w =
              batch_update_excel_rows d srv item ws rows ec ?c1 ?w2"
    using r Suc.prems(1) unfolding d
    by (subst batch_update_excel_rows.simps) (auto simp add: http_def sleep_ok Let_def)
  have ih: "batch_update_excel_rows d srv item ws rows ec ?c1 ?w2 =
      (Inl (Exception (''Failed to batch update Excel: '' @
              resp_text (srv (length (sent ?w2) + b) (batch_request item ws rows ec (token ?c1))))),
        ?c1\<lparr>max_retries := 0\<rparr>,
        ?w2\<lparr>sent := sent ?w2 @ replicate (Suc b) (batch_request item ws rows ec (token ?c1)),
          slept := slept ?w2 @ map (\<lambda>i. delay_of (srv (length (sent ?w2) + i)
                      (batch_request item ws rows ec (token ?c1)))) [0..<b]\<rparr>)"
    using Suc.prems bd by (intro Suc.IH) simp_all
  show ?case
    unfolding step ih by (simp add: upt_shift replicate_append_same del: upt_Suc)
qed

subsection \<open>Reading a range decodes the body first\<close>

text \<open>
  C9: \<open>get_excel_rows\<close> calls \<open>response.json()\<close> before it looks at the status code.
  Whatever the status of the response (429 included), a body that is not JSON makes the
  call raise the decode error at once: the request went out once, nothing was slept, the
  budget is untouched, and neither the retry nor the \<open>Failed to get Excel rows\<close> error
  is reached.
\<close>

theorem get_excel_rows_decodes_before_status: 
  "json_body (srv (length (sent w)) (rows_request item ws (token c))) = None \<Longrightarrow>
   get_excel_rows srv item ws c w =
     (Inl JSONDecodeError, c, w\<lparr>sent := sent w @ [rows_request item ws (token c)]\<rparr>)"
  by (subst get_excel_rows.simps) (simp add: http_def Let_def)

text \<open>The same at a 429 response with an HTML body.\<close>

theorem get_excel_rows_decodes_before_status_witness:
  "json_body ((always (reply 429 ''<html>Too Many Requests</html>'' None)) (length (sent world0))
       (rows_request ''item'' ''Sheet1'' (token example_client))) = None \<and>
   get_excel_rows (always (reply 429 ''<html>Too Many Requests</html>'' None)) ''item'' ''Sheet1''
       example_client world0 =
     (Inl JSONDecodeError, example_client,
      \<lparr>sent = [rows_request ''item'' ''Sheet1'' ''t0''], slept = []\<rparr>)"
proof -
  have h: "json_body ((always (reply 429 ''<html>Too Many Requests</html>'' None)) (length (sent world0))
       (rows_request ''item'' ''Sheet1'' (token example_client))) = None"
    by (simp add: reply_def always_def)
  show ?thesis
    using h get_excel_rows_decodes_before_status[of "always (reply 429 ''<html>Too Many Requests</html>'' None)" world0 "''item''" "''Sheet1''" example_client, OF h]
    by (simp add: world0_def example_client_def)
qed

subsection \<open>A call that is always throttled\<close>

text \<open>
  C4 does not hold for \<open>send_email\<close>, which has no throttling branch: against a server
  that answers 429 to every request it sends one request, sleeps nothing and raises.
  \<open>list_tables\<close>, like the other workbook operations, started with the budget at
  \<open>MAX_RETRIES\<close> against the same server, sends its request four times, sleeps the
  delay of each of the first three responses (7 as named, then the default 30 twice) and
  then raises with the text of the last response.
\<close>

theorem send_email_not_retried:
  "send_email example_lib throttling_server ''a@example.org'' ''subject'' ''body'' True
       example_client no_files world0 =
     (Inl (Exception ''Failed to send email: 429 null''),
      example_client\<lparr>token := ''t1''\<rparr>, no_files,
      \<lparr>sent = [mail_request ''a@example.org'' ''subject'' ''body'' True (bearer_headers ''t1'')],
       slept = []\<rparr>) \<and>
   list_tables throttling_server ''item'' example_client world0 =
     (Inl (Exception ''Failed to list tables: null''), example_client\<lparr>max_retries := 0\<rparr>,
      \<lparr>sent = replicate 4 (tables_request ''item'' ''t0''), slept = [7, 30, 30]\<rparr>)"
proof -
  have s: "send_email example_lib throttling_server ''a@example.org'' ''subject'' ''body'' True
       example_client no_files world0 =
     (Inl (Exception ''Failed to send email: 429 null''),
      example_client\<lparr>token := ''t1''\<rparr>, no_files,
      \<lparr>sent = [mail_request ''a@example.org'' ''subject'' ''body'' True (bearer_headers ''t1'')],
       slept = []\<rparr>)"
    by (simp add: send_email_def example_auth_headers http_def Let_def world0_def
        throttling_server_status throttling_server_text py_str_429)
  have up: "[0..<3] = [0, 1, 2]"
    by (simp add: upt_rec)
  have l: "list_tables throttling_server ''item'' example_client world0 =
     (Inl (Exception ''Failed to list tables: null''), example_client\<lparr>max_retries := 0\<rparr>,
      \<lparr>sent = replicate 4 (tables_request ''item'' ''t0''), slept = [7, 30, 30]\<rparr>)"
    using list_tables_throttled[of throttling_server "''item''" example_client 3 world0]
    by (simp add: throttling_server_ok throttling_server_text throttling_server_delay up
        world0_def example_client_def MAX_RETRIES_def)
  show ?thesis
    using s l by simp
qed

subsection \<open>A \<open>Retry-After\<close> header that is no integer\<close>

text \<open>
  C10: in the throttling branch of each of the five operations that has one, a 429
  response received while the budget is positive whose \<open>Retry-After\<close> header is present
  and is not an integer string makes the call raise \<open>ValueError\<close> from \<open>int\<close>: nothing
  is slept and nothing is retried. The budget has been decremented by then.
  (\<open>get_excel_rows\<close> reaches the branch only when the body decoded as JSON.)
\<close>

theorem unparsable_retry_after_raises:
  assumes "0 < max_retries c"
  shows
    "(unparsable_retry_after (srv (length (sent w)) (rows_request item ws (token c))) \<and>
      json_body (srv (length (sent w)) (rows_request item ws (token c))) \<noteq> None \<longrightarrow>
      get_excel_rows srv item ws c w =
        (Inl ValueError, c\<lparr>max_retries := max_retries c - 1\<rparr>,
         w\<lparr>sent := sent w @ [rows_request item ws (token c)]\<rparr>)) \<and>
     (unparsable_retry_after (srv (length (sent w)) (batch_request item ws rows ec (token c))) \<longrightarrow>
      batch_update_excel_rows (Suc depth) srv item ws rows ec c w =
        (Inl ValueError, c\<lparr>max_retries := max_retries c - 1\<rparr>,
         w\<lparr>sent := sent w @ [batch_request item ws rows ec (token c)]\<rparr>)) \<and>
     (unparsable_retry_after (srv (length (sent w)) (sort_request item ws sf (token c))) \<longrightarrow>
      reorder_excel_rows srv item ws sf c w =
        (Inl ValueError, c\<lparr>max_retries := max_retries c - 1\<rparr>,
         w\<lparr>sent := sent w @ [sort_request item ws sf (token c)]\<rparr>)) \<and>
     (unparsable_retry_after (srv (length (sent w)) (append_request item tbl vals (token c))) \<longrightarrow>
      append_rows_to_table srv item tbl vals c w =
        (Inl ValueError, c\<lparr>max_retries := max_retries c - 1\<rparr>,
         w\<lparr>sent := sent w @ [append_request item tbl vals (token c)]\<rparr>)) \<and>
     (unparsable_retry_after (srv (length (sent w)) (tables_request item (token c))) \<longrightarrow>
      list_tables srv item c w =
        (Inl ValueError, c\<lparr>max_retries := max_retries c - 1\<rparr>,
         w\<lparr>sent := sent w @ [tables_request item (token c)]\<rparr>))"
proof -
  have ra: "retry_after r = Inl ValueError" if "unparsable_retry_after r" for r
    using that by (auto simp: unparsable_retry_after_def retry_after_def split: option.splits)
  have st: "status_code r = 429" if "unparsable_retry_after r" for r
    using that by (simp add: unparsable_retry_after_def)
  show ?thesis
  proof (intro conjI impI)
    assume a: "unparsable_retry_after (srv (length (sent w)) (rows_request item ws (token c))) \<and>
      json_body (srv (length (sent w)) (rows_request item ws (token c))) \<noteq> None"
    then obtain j where "json_body (srv (length (sent w)) (rows_request item ws (token c))) = Some j"
      by auto
    then show "get_excel_rows srv item ws c w =
        (Inl ValueError, c\<lparr>max_retries := max_retries c - 1\<rparr>,
         w\<lparr>sent := sent w @ [rows_request item ws (token c)]\<rparr>)"
      using a assms
      by (subst get_excel_rows.simps) (simp add: http_def Let_def ra st)
  next
    assume "unparsable_retry_after (srv (length (sent w)) (batch_request item ws rows ec (token c)))"
    then show "batch_update_excel_rows (Suc depth) srv item ws rows ec c w =
        (Inl ValueError, c\<lparr>max_retries := max_retries c - 1\<rparr>,
         w\<lparr>sent := sent w @ [batch_request item ws rows ec (token c)]\<rparr>)"
      using assms
      by (subst batch_update_excel_rows.simps) (simp add: http_def Let_def ra st)
  next
    assume "unparsable_retry_after (srv (length (sent w)) (sort_request item ws sf (token c)))"
    then show "reorder_excel_rows srv item ws sf c w =
        (Inl ValueError, c\<lparr>max_retries := max_retries c - 1\<rparr>,
         w\<lparr>sent := sent w @ [sort_request item ws sf (token c)]\<rparr>)"
      using assms
      by (subst reorder_excel_rows.simps) (simp add: http_def Let_def ra st)
  next
    assume "unparsable_retry_after (srv (length (sent w)) (append_request item tbl vals (token c)))"
    then show "append_rows_to_table srv item tbl vals c w =
        (Inl ValueError, c\<lparr>max_retries := max_retries c - 1\<rparr>,
         w\<lparr>sent := sent w @ [append_request item tbl vals (token c)]\<rparr>)"
      using assms
      by (subst append_rows_to_table.simps) (simp add: http_def Let_def ra st)
  next
    assume "unparsable_retry_after (srv (length (sent w)) (tables_request item (token c)))"
    then show "list_tables srv item c w =
        (Inl ValueError, c\<lparr>max_retries := max_retries c - 1\<rparr>,
         w\<lparr>sent := sent w @ [tables_request item (token c)]\<rparr>)"
      using assms
      by (subst list_tables.simps) (simp add: http_def Let_def ra st)
  qed
qed

lemma http_date_server_unparsable: "unparsable_retry_after (http_date_server n rq)"
  by (simp add: unparsable_retry_after_def http_date_server_def reply_after_def py_int_http_date)

lemma http_date_server_json: "json_body (http_date_server n rq) \<noteq> None"
  by (simp add: http_date_server_def reply_after_def)

text \<open>
  The same for a server that names the retry time as an HTTP date, and for the header
  value U+001C followed by 7, which \<open>str.strip\<close> would clean but \<open>int\<close> refuses.
\<close>

theorem unparsable_retry_after_raises_witness:
  "0 < max_retries example_client \<and>
   (unparsable_retry_after (http_date_server (length (sent world0))
        (rows_request ''item'' ''Sheet1'' (token example_client))) \<and>
    json_body (http_date_server (length (sent world0))
        (rows_request ''item'' ''Sheet1'' (token example_client))) \<noteq> None) \<and>
   unparsable_retry_after (http_date_server (length (sent world0))
        (batch_request ''item'' ''Sheet1'' [(5, [JNum 1])] ''D'' (token example_client))) \<and>
   unparsable_retry_after (http_date_server (length (sent world0))
        (sort_request ''item'' ''Sheet1'' (JArr []) (token example_client))) \<and>
   unparsable_retry_after (http_date_server (length (sent world0))
        (append_request ''item'' ''Table1'' (JArr []) (token example_client))) \<and>
   unparsable_retry_after (http_date_server (length (sent world0))
        (tables_request ''item'' (token example_client))) \<and>
   get_excel_rows http_date_server ''item'' ''Sheet1'' example_client world0 =
     (Inl ValueError, example_client\<lparr>max_retries := 2\<rparr>,
      \<lparr>sent = [rows_request ''item'' ''Sheet1'' ''t0''], slept = []\<rparr>) \<and>
   batch_update_excel_rows (Suc 0) http_date_server ''item'' ''Sheet1'' [(5, [JNum 1])] ''D''
       example_client world0 =
     (Inl ValueError, example_client\<lparr>max_retries := 2\<rparr>,
      \<lparr>sent = [batch_request ''item'' ''Sheet1'' [(5, [JNum 1])] ''D'' ''t0''], slept = []\<rparr>) \<and>
   reorder_excel_rows http_date_server ''item'' ''Sheet1'' (JArr []) example_client world0 =
     (Inl ValueError, example_client\<lparr>max_retries := 2\<rparr>,
      \<lparr>sent = [sort_request ''item'' ''Sheet1'' (JArr []) ''t0''], slept = []\<rparr>) \<and>
   append_rows_to_table http_date_server ''item'' ''Table1'' (JArr []) example_client world0 =
     (Inl ValueError, example_client\<lparr>max_retries := 2\<rparr>,
      \<lparr>sent = [append_request ''item'' ''Table1'' (JArr []) ''t0''], slept = []\<rparr>) \<and>
   list_tables http_date_server ''item'' example_client world0 =
     (Inl ValueError, example_client\<lparr>max_retries := 2\<rparr>,
      \<lparr>sent = [tables_request ''item'' ''t0''], slept = []\<rparr>) \<and>
   unparsable_retry_after (always (reply_after [CHR 0x1C, CHR ''7'']) (length (sent world0))
        (tables_request ''item'' (token example_client))) \<and>
   list_tables (always (reply_after [CHR 0x1C, CHR ''7''])) ''item'' example_client world0 =
     (Inl ValueError, example_client\<lparr>max_retries := 2\<rparr>,
      \<lparr>sent = [tables_request ''item'' ''t0''], slept = []\<rparr>)"
proof -
  have h: "0 < max_retries example_client"
    by (simp add: example_client_def MAX_RETRIES_def)
  have tok: "token example_client = ''t0''" and b: "max_retries example_client = 3"
    by (simp_all add: example_client_def MAX_RETRIES_def)
  have s: "unparsable_retry_after (always (reply_after [CHR 0x1C, CHR ''7'']) n rq)" for n rq
    by (simp add: unparsable_retry_after_def always_def reply_after_def py_int_separator)
  show ?thesis
    using h
      unparsable_retry_after_raises[OF h, of http_date_server world0 "''item''" "''Sheet1''"
        "[(5, [JNum 1])]" "''D''" 0 "JArr []" "''Table1''" "JArr []"]
      unparsable_retry_after_raises[OF h, of "always (reply_after [CHR 0x1C, CHR ''7''])" world0
        "''item''" "''Sheet1''" "[(5, [JNum 1])]" "''D''" 0 "JArr []" "''Table1''" "JArr []"]
    by (simp add: http_date_server_unparsable http_date_server_json s tok b world0_def)
qed

subsection \<open>The budget after a successful call\<close>

text \<open>
  C2 does not hold for \<open>get_excel_rows\<close>, which never assigns the budget: after one
  throttled retry and a successful response the client is left with \<open>MAX_RETRIES - 1\<close>.
  \<open>list_tables\<close> against the same server ends with the budget back at \<open>MAX_RETRIES\<close>.
\<close>

theorem get_excel_rows_keeps_spent_budget:
  "get_excel_rows rows_server ''item'' ''Sheet1'' example_client world0 =
     (Inr (JArr []), example_client\<lparr>max_retries := MAX_RETRIES - 1\<rparr>,
      \<lparr>sent = [rows_request ''item'' ''Sheet1'' ''t0'', rows_request ''item'' ''Sheet1'' ''t0''],
       slept = [30]\<rparr>) \<and>
   max_retries (fst (snd (get_excel_rows rows_server ''item'' ''Sheet1'' example_client world0)))
     \<noteq> MAX_RETRIES \<and>
   list_tables rows_server ''item'' example_client world0 =
     (Inr (JArr []), example_client,
      \<lparr>sent = [tables_request ''item'' ''t0'', tables_request ''item'' ''t0''], slept = [30]\<rparr>)"
proof -
  have g: "get_excel_rows rows_server ''item'' ''Sheet1'' example_client world0 =
     (Inr (JArr []), example_client\<lparr>max_retries := MAX_RETRIES - 1\<rparr>,
      \<lparr>sent = [rows_request ''item'' ''Sheet1'' ''t0'', rows_request ''item'' ''Sheet1'' ''t0''],
       slept = [30]\<rparr>)"
    apply (subst get_excel_rows.simps)
    apply (simp add: http_def Let_def rows_server_def reply_def world0_def example_client_def
        MAX_RETRIES_def retry_after_def py_int_30 sleep_def SLEEP_MAX_val)
    apply (subst get_excel_rows.simps)
    apply (simp add: http_def Let_def rows_server_def reply_def empty_range_def subscript_def)
    done
  have l: "list_tables rows_server ''item'' example_client world0 =
     (Inr (JArr []), example_client,
      \<lparr>sent = [tables_request ''item'' ''t0'', tables_request ''item'' ''t0''], slept = [30]\<rparr>)"
    apply (subst list_tables.simps)
    apply (simp add: http_def Let_def rows_server_def reply_def world0_def example_client_def
        MAX_RETRIES_def retry_after_def py_int_30 sleep_def SLEEP_MAX_val)
    apply (subst list_tables.simps)
    apply (simp add: http_def Let_def rows_server_def reply_def empty_range_def dict_get_def
        MAX_RETRIES_def)
    done
  show ?thesis
    unfolding g l by (simp add: example_client_def MAX_RETRIES_def)
qed

subsection \<open>The token a request carries\<close>

text \<open>
  C1 does not hold for \<open>get_excel_rows\<close> (nor for the other four workbook operations,
  which build their headers the same way): the request carries the token stored in the
  client. With the example library the client is constructed with token \<open>t0\<close>; at the
  time of the call the library would refresh it to \<open>t1\<close>, which is what \<open>auth_headers\<close>
  returns, yet the request that \<open>get_excel_rows\<close> sends carries \<open>t0\<close>.
\<close>

theorem get_excel_rows_sends_stored_token:
  "fst (init example_lib ''client'' ''tenant'' cache_path [] no_files) = Inr example_client \<and>
   sent (snd (snd (get_excel_rows (always empty_range) ''item'' ''Sheet1'' example_client
        world0))) =
     [rows_request ''item'' ''Sheet1'' ''t0''] \<and>
   map_of (req_headers (rows_request ''item'' ''Sheet1'' ''t0'')) ''Authorization'' =
     Some ''Bearer t0'' \<and>
   fst (auth_headers example_lib example_client
          (snd (init example_lib ''client'' ''tenant'' cache_path [] no_files))) =
     Inr (bearer_headers ''t1'') \<and>
   map_of (bearer_headers ''t1'') ''Authorization'' = Some ''Bearer t1''"
proof -
  have g: "sent (snd (snd (get_excel_rows (always empty_range) ''item'' ''Sheet1'' example_client
        world0))) =
     [rows_request ''item'' ''Sheet1'' ''t0'']"
    by (subst get_excel_rows.simps)
      (simp add: http_def Let_def always_def reply_def empty_range_def world0_def
        example_client_def subscript_def)
  show ?thesis
    using g
    by (simp add: example_init example_auth_headers rows_request_def bearer_headers_def)
qed

subsection \<open>Failures that are not retried\<close>

text \<open>
  C7 as the spec states it fails where it says the error carries the status code: the
  error of \<open>list_tables\<close> is the same for a 500 and for a 404 response with the same
  body.
\<close>

theorem list_tables_error_counterexample:
  "fst (list_tables (always (reply 500 ''boom'' None)) ''item'' example_client world0) =
     Inl (Exception ''Failed to list tables: boom'') \<and>
   fst (list_tables (always (reply 404 ''boom'' None)) ''item'' example_client world0) =
     Inl (Exception ''Failed to list tables: boom'')"
  by (simp add: list_tables.simps[of _ _ example_client] http_def Let_def always_def reply_def)

text \<open>
  C7, amended: a response whose status is neither 429 nor the success status of the
  operation (for \<open>append_rows_to_table\<close>: and whose body has no lock marker; for
  \<open>get_excel_rows\<close>: and whose body decodes as JSON) makes the call raise at once: the
  request went out once, nothing was slept, the budget is unchanged. The error carries
  the text of the response verbatim; only the error of \<open>send_email\<close> carries the status
  code as well, and \<open>send_email\<close> raises so for every status other than 200 and 202.
\<close>

theorem failure_raises_without_retry:
  "(json_body (srv (length (sent w)) (rows_request item ws (token c))) \<noteq> None \<and>
    status_code (srv (length (sent w)) (rows_request item ws (token c))) \<noteq> 429 \<and>
    status_code (srv (length (sent w)) (rows_request item ws (token c))) \<noteq> 200 \<longrightarrow>
    get_excel_rows srv item ws c w =
      (Inl (Exception (''Failed to get Excel rows: '' @
              resp_text (srv (length (sent w)) (rows_request item ws (token c))))),
       c, w\<lparr>sent := sent w @ [rows_request item ws (token c)]\<rparr>)) \<and>
   (status_code (srv (length (sent w)) (batch_request item ws rows ec (token c))) \<noteq> 429 \<and>
    status_code (srv (length (sent w)) (batch_request item ws rows ec (token c))) \<noteq> 200 \<longrightarrow>
    batch_update_excel_rows (Suc depth) srv item ws rows ec c w =
      (Inl (Exception (''Failed to batch update Excel: '' @
              resp_text (srv (length (sent w)) (batch_request item ws rows ec (token c))))),
       c, w\<lparr>sent := sent w @ [batch_request item ws rows ec (token c)]\<rparr>)) \<and>
   (status_code (srv (length (sent w)) (sort_request item ws sf (token c))) \<noteq> 429 \<and>
    status_code (srv (length (sent w)) (sort_request item ws sf (token c))) \<noteq> 200 \<longrightarrow>
    reorder_excel_rows srv item ws sf c w =
      (Inl (Exception (''Failed to reorder Excel rows: '' @
              resp_text (srv (length (sent w)) (sort_request item ws sf (token c))))),
       c, w\<lparr>sent := sent w @ [sort_request item ws sf (token c)]\<rparr>)) \<and>
   (status_code (srv (length (sent w)) (append_request item tbl vals (token c))) \<noteq> 429 \<and>
    status_code (srv (length (sent w)) (append_request item tbl vals (token c))) \<noteq> 201 \<and>
    \<not> str_contains LOCK_MARKER
        (resp_text (srv (length (sent w)) (append_request item tbl vals (token c)))) \<longrightarrow>
    append_rows_to_table srv item tbl vals c w =
      (Inl (Exception (''Failed to append rows: '' @
              resp_text (srv (length (sent w)) (append_request item tbl vals (token c))))),
       c, w\<lparr>sent := sent w @ [append_request item tbl vals (token c)]\<rparr>)) \<and>
   (status_code (srv (length (sent w)) (tables_request item (token c))) \<noteq> 429 \<and>
    status_code (srv (length (sent w)) (tables_request item (token c))) \<noteq> 200 \<longrightarrow>
    list_tables srv item c w =
      (Inl (Exception (''Failed to list tables: '' @
              resp_text (srv (length (sent w)) (tables_request item (token c))))),
       c, w\<lparr>sent := sent w @ [tables_request item (token c)]\<rparr>)) \<and>
   (fst (auth_headers lib c files) = Inr hdrs \<and>
    status_code (srv (length (sent w)) (mail_request rcpt subj body sv hdrs)) \<noteq> 200 \<and>
    status_code (srv (length (sent w)) (mail_request rcpt subj body sv hdrs)) \<noteq> 202 \<longrightarrow>
    fst (send_email lib srv rcpt subj body sv c files w) =
      Inl (Exception (''Failed to send email: '' @
             py_str (status_code (srv (length (sent w)) (mail_request rcpt subj body sv hdrs)))
             @ '' '' @ resp_text (srv (length (sent w)) (mail_request rcpt subj body sv hdrs)))) \<and>
    snd (snd (snd (send_email lib srv rcpt subj body sv c files w))) =
      w\<lparr>sent := sent w @ [mail_request rcpt subj body sv hdrs]\<rparr>)"
proof (intro conjI impI)
  assume a: "json_body (srv (length (sent w)) (rows_request item ws (token c))) \<noteq> None \<and>
    status_code (srv (length (sent w)) (rows_request item ws (token c))) \<noteq> 429 \<and>
    status_code (srv (length (sent w)) (rows_request item ws (token c))) \<noteq> 200"
  then obtain j where "json_body (srv (length (sent w)) (rows_request item ws (token c))) = Some j"
    by auto
  then show "get_excel_rows srv item ws c w =
      (Inl (Exception (''Failed to get Excel rows: '' @
              resp_text (srv (length (sent w)) (rows_request item ws (token c))))),
       c, w\<lparr>sent := sent w @ [rows_request item ws (token c)]\<rparr>)"
    using a by (subst get_excel_rows.simps) (simp add: http_def Let_def)
next
  assume "status_code (srv (length (sent w)) (batch_request item ws rows ec (token c))) \<noteq> 429 \<and>
    status_code (srv (length (sent w)) (batch_request item ws rows ec (token c))) \<noteq> 200"
  then show "batch_update_excel_rows (Suc depth) srv item ws rows ec c w =
      (Inl (Exception (''Failed to batch update Excel: '' @
              resp_text (srv (length (sent w)) (batch_request item ws rows ec (token c))))),
       c, w\<lparr>sent := sent w @ [batch_request item ws rows ec (token c)]\<rparr>)"
    by (subst batch_update_excel_rows.simps) (simp add: http_def Let_def)
next
  assume "status_code (srv (length (sent w)) (sort_request item ws sf (token c))) \<noteq> 429 \<and>
    status_code (srv (length (sent w)) (sort_request item ws sf (token c))) \<noteq> 200"
  then show "reorder_excel_rows srv item ws sf c w =
      (Inl (Exception (''Failed to reorder Excel rows: '' @
              resp_text (srv (length (sent w)) (sort_request item ws sf (token c))))),
       c, w\<lparr>sent := sent w @ [sort_request item ws sf (token c)]\<rparr>)"
    by (subst reorder_excel_rows.simps) (simp add: http_def Let_def)
next
  assume "status_code (srv (length (sent w)) (append_request item tbl vals (token c))) \<noteq> 429 \<and>
    status_code (srv (length (sent w)) (append_request item tbl vals (token c))) \<noteq> 201 \<and>
    \<not> str_contains LOCK_MARKER
        (resp_text (srv (length (sent w)) (append_request item tbl vals (token c))))"
  then show "append_rows_to_table srv item tbl vals c w =
      (Inl (Exception (''Failed to append rows: '' @
              resp_text (srv (length (sent w)) (append_request item tbl vals (token c))))),
       c, w\<lparr>sent := sent w @ [append_request item tbl vals (token c)]\<rparr>)"
    by (subst append_rows_to_table.simps) (simp add: http_def Let_def)
next
  assume "status_code (srv (length (sent w)) (tables_request item (token c))) \<noteq> 429 \<and>
    status_code (srv (length (sent w)) (tables_request item (token c))) \<noteq> 200"
  then show "list_tables srv item c w =
      (Inl (Exception (''Failed to list tables: '' @
              resp_text (srv (length (sent w)) (tables_request item (token c))))),
       c, w\<lparr>sent := sent w @ [tables_request item (token c)]\<rparr>)"
    by (subst list_tables.simps) (simp add: http_def Let_def)
next
  assume a: "fst (auth_headers lib c files) = Inr hdrs \<and>
    status_code (srv (length (sent w)) (mail_request rcpt subj body sv hdrs)) \<noteq> 200 \<and>
    status_code (srv (length (sent w)) (mail_request rcpt subj body sv hdrs)) \<noteq> 202"
  then show "fst (send_email lib srv rcpt subj body sv c files w) =
      Inl (Exception (''Failed to send email: '' @
             py_str (status_code (srv (length (sent w)) (mail_request rcpt subj body sv hdrs)))
             @ '' '' @ resp_text (srv (length (sent w)) (mail_request rcpt subj body sv hdrs))))"
    by (cases "auth_headers lib c files") (simp add: send_email_def http_def Let_def)
  from a show "snd (snd (snd (send_email lib srv rcpt subj body sv c files w))) =
      w\<lparr>sent := sent w @ [mail_request rcpt subj body sv hdrs]\<rparr>"
    by (cases "auth_headers lib c files") (simp add: send_email_def http_def Let_def)
qed

theorem failure_raises_without_retry_witness:
  "(json_body (always (reply 500 ''null'' (Some JNull)) (length (sent world0))
        (rows_request ''item'' ''Sheet1'' (token example_client))) \<noteq> None \<and>
    status_code (always (reply 500 ''null'' (Some JNull)) (length (sent world0))
        (rows_request ''item'' ''Sheet1'' (token example_client))) \<noteq> 429 \<and>
    status_code (always (reply 500 ''null'' (Some JNull)) (length (sent world0))
        (rows_request ''item'' ''Sheet1'' (token example_client))) \<noteq> 200) \<and>
   (status_code (always (reply 500 ''null'' (Some JNull)) (length (sent world0))
        (batch_request ''item'' ''Sheet1'' [(5, [JNum 1])] ''D'' (token example_client))) \<noteq> 429 \<and>
    status_code (always (reply 500 ''null'' (Some JNull)) (length (sent world0))
        (batch_request ''item'' ''Sheet1'' [(5, [JNum 1])] ''D'' (token example_client))) \<noteq> 200) \<and>
   (status_code (always (reply 500 ''null'' (Some JNull)) (length (sent world0))
        (sort_request ''item'' ''Sheet1'' (JArr []) (token example_client))) \<noteq> 429 \<and>
    status_code (always (reply 500 ''null'' (Some JNull)) (length (sent world0))
        (sort_request ''item'' ''Sheet1'' (JArr []) (token example_client))) \<noteq> 200) \<and>
   (status_code (always (reply 500 ''null'' (Some JNull)) (length (sent world0))
        (append_request ''item'' ''Table1'' (JArr []) (token example_client))) \<noteq> 429 \<and>
    status_code (always (reply 500 ''null'' (Some JNull)) (length (sent world0))
        (append_request ''item'' ''Table1'' (JArr []) (token example_client))) \<noteq> 201 \<and>
    \<not> str_contains LOCK_MARKER
        (resp_text (always (reply 500 ''null'' (Some JNull)) (length (sent world0))
           (append_request ''item'' ''Table1'' (JArr []) (token example_client))))) \<and>
   (status_code (always (reply 500 ''null'' (Some JNull)) (length (sent world0))
        (tables_request ''item'' (token example_client))) \<noteq> 429 \<and>
    status_code (always (reply 500 ''null'' (Some JNull)) (length (sent world0))
        (tables_request ''item'' (token example_client))) \<noteq> 200) \<and>
   (fst (auth_headers example_lib example_client no_files) = Inr (bearer_headers ''t1'') \<and>
    status_code (always (reply 500 ''null'' (Some JNull)) (length (sent world0))
        (mail_request ''a@example.org'' ''subject'' ''body'' True (bearer_headers ''t1''))) \<noteq> 200 \<and>
    status_code (always (reply 500 ''null'' (Some JNull)) (length (sent world0))
        (mail_request ''a@example.org'' ''subject'' ''body'' True (bearer_headers ''t1''))) \<noteq> 202) \<and>
   get_excel_rows (always (reply 500 ''null'' (Some JNull))) ''item'' ''Sheet1'' example_client
       world0 =
     (Inl (Exception ''Failed to get Excel rows: null''), example_client,
      \<lparr>sent = [rows_request ''item'' ''Sheet1'' ''t0''], slept = []\<rparr>) \<and>
   batch_update_excel_rows (Suc 0) (always (reply 500 ''null'' (Some JNull))) ''item'' ''Sheet1''
       [(5, [JNum 1])] ''D'' example_client world0 =
     (Inl (Exception ''Failed to batch update Excel: null''), example_client,
      \<lparr>sent = [batch_request ''item'' ''Sheet1'' [(5, [JNum 1])] ''D'' ''t0''], slept = []\<rparr>) \<and>
   reorder_excel_rows (always (reply 500 ''null'' (Some JNull))) ''item'' ''Sheet1'' (JArr [])
       example_client world0 =
     (Inl (Exception ''Failed to reorder Excel rows: null''), example_client,
      \<lparr>sent = [sort_request ''item'' ''Sheet1'' (JArr []) ''t0''], slept = []\<rparr>) \<and>
   append_rows_to_table (always (reply 500 ''null'' (Some JNull))) ''item'' ''Table1'' (JArr [])
       example_client world0 =
     (Inl (Exception ''Failed to append rows: null''), example_client,
      \<lparr>sent = [append_request ''item'' ''Table1'' (JArr []) ''t0''], slept = []\<rparr>) \<and>
   list_tables (always (reply 500 ''null'' (Some JNull))) ''item'' example_client world0 =
     (Inl (Exception ''Failed to list tables: null''), example_client,
      \<lparr>sent = [tables_request ''item'' ''t0''], slept = []\<rparr>) \<and>
   fst (send_email example_lib (always (reply 500 ''null'' (Some JNull))) ''a@example.org''
          ''subject'' ''body'' True example_client no_files world0) =
     Inl (Exception ''Failed to send email: 500 null'')"
proof -
  have tok: "token example_client = ''t0''"
    by (simp add: example_client_def)
  have r: "always (reply 500 ''null'' (Some JNull)) n rq =
      \<lparr>status_code = 500, headers = Map.empty, resp_text = ''null'', json_body = Some JNull\<rparr>"
    for n rq by (simp add: always_def reply_def)
  show ?thesis
    using failure_raises_without_retry[of "always (reply 500 ''null'' (Some JNull))" world0 "''item''" "''Sheet1''"
        example_client "[(5, [JNum 1])]" "''D''" 0 "JArr []" "''Table1''" "JArr []"
        example_lib no_files "bearer_headers ''t1''" "''a@example.org''" "''subject''"
        "''body''" True]
    by (simp add: r tok example_auth_headers LOCK_MARKER_def py_str_500 world0_def)
qed

subsection \<open>Which status is a success\<close>

text \<open>
  C6 as the spec states it fails for \<open>append_rows_to_table\<close> on a response that carries
  the lock marker while the budget is positive: such a response is retried whatever its
  status. A 201 with the marker followed by a 500 ends in the failure, and a 200 with the
  marker followed by a 201 ends in success. A 201 whose body is empty raises the decode
  error of \<open>response.json()\<close>.
\<close>

theorem append_marker_status_counterexample:
  "append_rows_to_table (first_then (reply 201 lock_body None) (reply 500 ''boom'' None))
       ''item'' ''Table1'' (JArr []) example_client world0 =
     (Inl (Exception ''Failed to append rows: boom''), example_client\<lparr>max_retries := 2\<rparr>,
      \<lparr>sent = [append_request ''item'' ''Table1'' (JArr []) ''t0'',
               append_request ''item'' ''Table1'' (JArr []) ''t0''],
       slept = [10]\<rparr>) \<and>
   append_rows_to_table (first_then (reply 200 lock_body None) (reply 201 ''null'' (Some JNull)))
       ''item'' ''Table1'' (JArr []) example_client world0 =
     (Inr JNull, example_client,
      \<lparr>sent = [append_request ''item'' ''Table1'' (JArr []) ''t0'',
               append_request ''item'' ''Table1'' (JArr []) ''t0''],
       slept = [10]\<rparr>) \<and>
   append_rows_to_table (always (reply 201 [] None)) ''item'' ''Table1'' (JArr [])
       example_client world0 =
     (Inl JSONDecodeError, example_client,
      \<lparr>sent = [append_request ''item'' ''Table1'' (JArr []) ''t0''], slept = []\<rparr>)"
proof -
  have e: "append_rows_to_table (always (reply 201 [] None)) ''item'' ''Table1'' (JArr [])
       example_client world0 =
     (Inl JSONDecodeError, example_client,
      \<lparr>sent = [append_request ''item'' ''Table1'' (JArr []) ''t0''], slept = []\<rparr>)"
    apply (subst append_rows_to_table.simps)
    apply (simp add: http_def Let_def always_def reply_def world0_def example_client_def
        MAX_RETRIES_def LOCK_MARKER_def)
    done
  have a: "append_rows_to_table (first_then (reply 201 lock_body None) (reply 500 ''boom'' None))
       ''item'' ''Table1'' (JArr []) example_client world0 =
     (Inl (Exception ''Failed to append rows: boom''), example_client\<lparr>max_retries := 2\<rparr>,
      \<lparr>sent = [append_request ''item'' ''Table1'' (JArr []) ''t0'',
               append_request ''item'' ''Table1'' (JArr []) ''t0''],
       slept = [10]\<rparr>)"
    apply (subst append_rows_to_table.simps)
    apply (simp add: http_def Let_def first_then_def reply_def world0_def example_client_def
        MAX_RETRIES_def lock_body_def LOCK_MARKER_def sleep_10)
    apply (subst append_rows_to_table.simps)
    apply (simp add: http_def Let_def first_then_def reply_def LOCK_MARKER_def)
    done
  have b: "append_rows_to_table (first_then (reply 200 lock_body None) (reply 201 ''null'' (Some JNull)))
       ''item'' ''Table1'' (JArr []) example_client world0 =
     (Inr JNull, example_client,
      \<lparr>sent = [append_request ''item'' ''Table1'' (JArr []) ''t0'',
               append_request ''item'' ''Table1'' (JArr []) ''t0''],
       slept = [10]\<rparr>)"
    apply (subst append_rows_to_table.simps)
    apply (simp add: http_def Let_def first_then_def reply_def world0_def example_client_def
        MAX_RETRIES_def lock_body_def LOCK_MARKER_def sleep_10)
    apply (subst append_rows_to_table.simps)
    apply (simp add: http_def Let_def first_then_def reply_def LOCK_MARKER_def MAX_RETRIES_def)
    done
  show ?thesis
    using a b e by simp
qed

text \<open>
  C6, amended. \<open>append_rows_to_table\<close>, on a response that does not carry the lock
  marker with budget left: a 201 is the success, returned as its decoded body with the
  budget back at \<open>MAX_RETRIES\<close> (a body that does not decode raises the decode error);
  any other status that is not throttled, 200 included, raises the \<open>Failed to append
  rows\<close> error with the text of the response; either way the request went out once and
  nothing was slept. A response with the marker and a status other than 429, received
  with budget left, is retried whatever its status. \<open>send_email\<close>, once the headers were
  obtained, sends one request and returns \<open>True\<close> exactly for the statuses 200 and 202;
  every other status raises.
\<close>

theorem status_code_discrimination:
  "(status_code (srv (length (sent w)) (append_request item tbl vals (token c))) = 201 \<and>
    \<not> (str_contains LOCK_MARKER
          (resp_text (srv (length (sent w)) (append_request item tbl vals (token c)))) \<and>
        0 < max_retries c) \<longrightarrow>
    append_rows_to_table srv item tbl vals c w =
      ((case json_body (srv (length (sent w)) (append_request item tbl vals (token c))) of
          None \<Rightarrow> Inl JSONDecodeError
        | Some j \<Rightarrow> Inr j),
       c\<lparr>max_retries := MAX_RETRIES\<rparr>,
       w\<lparr>sent := sent w @ [append_request item tbl vals (token c)]\<rparr>)) \<and>
   (status_code (srv (length (sent w)) (append_request item tbl vals (token c))) \<noteq> 201 \<and>
    \<not> (status_code (srv (length (sent w)) (append_request item tbl vals (token c))) = 429 \<and>
        0 < max_retries c) \<and>
    \<not> (str_contains LOCK_MARKER
          (resp_text (srv (length (sent w)) (append_request item tbl vals (token c)))) \<and>
        0 < max_retries c) \<longrightarrow>
    append_rows_to_table srv item tbl vals c w =
      (Inl (Exception (''Failed to append rows: '' @
              resp_text (srv (length (sent w)) (append_request item tbl vals (token c))))),
       c, w\<lparr>sent := sent w @ [append_request item tbl vals (token c)]\<rparr>)) \<and>
   (status_code (srv (length (sent w)) (append_request item tbl vals (token c))) \<noteq> 429 \<and>
    str_contains LOCK_MARKER
      (resp_text (srv (length (sent w)) (append_request item tbl vals (token c)))) \<and>
    0 < max_retries c \<longrightarrow>
    append_rows_to_table srv item tbl vals c w =
      append_rows_to_table srv item tbl vals (c\<lparr>max_retries := max_retries c - 1\<rparr>)
        (w\<lparr>sent := sent w @ [append_request item tbl vals (token c)],
           slept := slept w @ [10]\<rparr>)) \<and>
   (auth_headers lib c files = (Inr hdrs, c1, files1) \<longrightarrow>
    send_email lib srv rcpt subj body sv c files w =
      ((if status_code (srv (length (sent w)) (mail_request rcpt subj body sv hdrs)) = 200 \<or>
           status_code (srv (length (sent w)) (mail_request rcpt subj body sv hdrs)) = 202
        then Inr True
        else Inl (Exception (''Failed to send email: '' @
               py_str (status_code (srv (length (sent w)) (mail_request rcpt subj body sv hdrs)))
               @ '' '' @ resp_text (srv (length (sent w)) (mail_request rcpt subj body sv hdrs))))),
       c1, files1, w\<lparr>sent := sent w @ [mail_request rcpt subj body sv hdrs]\<rparr>))"
proof (intro conjI impI)
  assume "status_code (srv (length (sent w)) (append_request item tbl vals (token c))) = 201 \<and>
    \<not> (str_contains LOCK_MARKER
          (resp_text (srv (length (sent w)) (append_request item tbl vals (token c)))) \<and>
        0 < max_retries c)"
  then show "append_rows_to_table srv item tbl vals c w =
      ((case json_body (srv (length (sent w)) (append_request item tbl vals (token c))) of
          None \<Rightarrow> Inl JSONDecodeError
        | Some j \<Rightarrow> Inr j),
       c\<lparr>max_retries := MAX_RETRIES\<rparr>,
       w\<lparr>sent := sent w @ [append_request item tbl vals (token c)]\<rparr>)"
    by (subst append_rows_to_table.simps) (auto simp add: http_def Let_def split: option.splits)
next
  assume "status_code (srv (length (sent w)) (append_request item tbl vals (token c))) \<noteq> 201 \<and>
    \<not> (status_code (srv (length (sent w)) (append_request item tbl vals (token c))) = 429 \<and>
        0 < max_retries c) \<and>
    \<not> (str_contains LOCK_MARKER
          (resp_text (srv (length (sent w)) (append_request item tbl vals (token c)))) \<and>
        0 < max_retries c)"
  then show "append_rows_to_table srv item tbl vals c w =
      (Inl (Exception (''Failed to append rows: '' @
              resp_text (srv (length (sent w)) (append_request item tbl vals (token c))))),
       c, w\<lparr>sent := sent w @ [append_request item tbl vals (token c)]\<rparr>)"
    by (subst append_rows_to_table.simps) (auto simp add: http_def Let_def)
next
  assume "status_code (srv (length (sent w)) (append_request item tbl vals (token c))) \<noteq> 429 \<and>
    str_contains LOCK_MARKER
      (resp_text (srv (length (sent w)) (append_request item tbl vals (token c)))) \<and>
    0 < max_retries c"
  then show "append_rows_to_table srv item tbl vals c w =
      append_rows_to_table srv item tbl vals (c\<lparr>max_retries := max_retries c - 1\<rparr>)
        (w\<lparr>sent := sent w @ [append_request item tbl vals (token c)],
           slept := slept w @ [10]\<rparr>)"
    by (subst append_rows_to_table.simps) (simp add: http_def sleep_10 Let_def)
next
  assume "auth_headers lib c files = (Inr hdrs, c1, files1)"
  then show "send_email lib srv rcpt subj body sv c files w =
      ((if status_code (srv (length (sent w)) (mail_request rcpt subj body sv hdrs)) = 200 \<or>
           status_code (srv (length (sent w)) (mail_request rcpt subj body sv hdrs)) = 202
        then Inr True
        else Inl (Exception (''Failed to send email: '' @
               py_str (status_code (srv (length (sent w)) (mail_request rcpt subj body sv hdrs)))
               @ '' '' @ resp_text (srv (length (sent w)) (mail_request rcpt subj body sv hdrs))))),
       c1, files1, w\<lparr>sent := sent w @ [mail_request rcpt subj body sv hdrs]\<rparr>)"
    by (auto simp add: send_email_def http_def Let_def)
qed

text \<open>The boundaries: 201, 200 and a marked 200 for appending; 200, 202 and 201 for sending.\<close>

theorem status_code_discrimination_witness:
  "auth_headers example_lib example_client no_files =
     (Inr (bearer_headers ''t1''), example_client\<lparr>token := ''t1''\<rparr>, no_files) \<and>
   append_rows_to_table (always (reply 201 ''null'' (Some JNull))) ''item'' ''Table1''
       (JArr []) example_client world0 =
     (Inr JNull, example_client,
      \<lparr>sent = [append_request ''item'' ''Table1'' (JArr []) ''t0''], slept = []\<rparr>) \<and>
   append_rows_to_table (always (reply 200 ''null'' (Some JNull))) ''item'' ''Table1''
       (JArr []) example_client world0 =
     (Inl (Exception ''Failed to append rows: null''), example_client,
      \<lparr>sent = [append_request ''item'' ''Table1'' (JArr []) ''t0''], slept = []\<rparr>) \<and>
   append_rows_to_table (always (reply 200 lock_body None)) ''item'' ''Table1''
       (JArr []) example_client world0 =
     append_rows_to_table (always (reply 200 lock_body None)) ''item'' ''Table1''
       (JArr []) (example_client\<lparr>max_retries := 2\<rparr>)
       \<lparr>sent = [append_request ''item'' ''Table1'' (JArr []) ''t0''], slept = [10]\<rparr> \<and>
   send_email example_lib (always (reply 200 ''null'' (Some JNull))) ''a@example.org''
       ''subject'' ''body'' True example_client no_files world0 =
     (Inr True, example_client\<lparr>token := ''t1''\<rparr>, no_files,
      \<lparr>sent = [mail_request ''a@example.org'' ''subject'' ''body'' True (bearer_headers ''t1'')],
       slept = []\<rparr>) \<and>
   send_email example_lib (always (reply 202 [] None)) ''a@example.org''
       ''subject'' ''body'' True example_client no_files world0 =
     (Inr True, example_client\<lparr>token := ''t1''\<rparr>, no_files,
      \<lparr>sent = [mail_request ''a@example.org'' ''subject'' ''body'' True (bearer_headers ''t1'')],
       slept = []\<rparr>) \<and>
   send_email example_lib (always (reply 201 ''null'' (Some JNull))) ''a@example.org''
       ''subject'' ''body'' True example_client no_files world0 =
     (Inl (Exception ''Failed to send email: 201 null''), example_client\<lparr>token := ''t1''\<rparr>,
      no_files,
      \<lparr>sent = [mail_request ''a@example.org'' ''subject'' ''body'' True (bearer_headers ''t1'')],
       slept = []\<rparr>)"
proof -
  have h: "auth_headers example_lib example_client no_files =
     (Inr (bearer_headers ''t1''), example_client\<lparr>token := ''t1''\<rparr>, no_files)"
    by (simp add: example_auth_headers)
  have tok: "token example_client = ''t0''" and bud: "max_retries example_client = 3"
    and full: "example_client\<lparr>max_retries := MAX_RETRIES\<rparr> = example_client"
    by (simp_all add: example_client_def MAX_RETRIES_def)
  note t = status_code_discrimination[of _ world0 "''item''" "''Table1''" "JArr []"
              example_client example_lib no_files "bearer_headers ''t1''"
              "example_client\<lparr>token := ''t1''\<rparr>" no_files
              "''a@example.org''" "''subject''" "''body''" True]
  show ?thesis
    using h t[of "always (reply 201 ''null'' (Some JNull))"]
      t[of "always (reply 200 ''null'' (Some JNull))"]
      t[of "always (reply 200 lock_body None)"]
      t[of "always (reply 202 [] None)"]
    by (simp add: always_def reply_def py_str_201 tok bud full world0_def LOCK_MARKER_def
        lock_body_def)
qed

subsection \<open>Lock contention\<close>

lemma lock_body_marked: "str_contains LOCK_MARKER lock_body"
  by (simp add: LOCK_MARKER_def lock_body_def)

text \<open>
  C3 as the spec states it fails where it says the retry is independent of the status:
  \<open>batch_update_excel_rows\<close> raises on a 500 response although its body carries the lock
  marker and the budget is positive, and \<open>append_rows_to_table\<close> treats a 429 response
  with the marker as throttling: it sleeps the 30 of the absent \<open>Retry-After\<close>, not 10.
\<close>

theorem lock_retry_status_counterexample:
  "str_contains LOCK_MARKER (resp_text (reply 500 lock_body None)) \<and>
   0 < max_retries example_client \<and>
   batch_update_excel_rows 5 (always (reply 500 lock_body None)) ''item'' ''Sheet1''
       [(5, [JNum 1])] ''D'' example_client world0 =
     (Inl (Exception (''Failed to batch update Excel: '' @ lock_body)), example_client,
      \<lparr>sent = [batch_request ''item'' ''Sheet1'' [(5, [JNum 1])] ''D'' ''t0''], slept = []\<rparr>) \<and>
   append_rows_to_table (first_then (reply 429 lock_body None) (reply 201 ''null'' (Some JNull)))
       ''item'' ''Table1'' (JArr []) example_client world0 =
     (Inr JNull, example_client,
      \<lparr>sent = [append_request ''item'' ''Table1'' (JArr []) ''t0'',
               append_request ''item'' ''Table1'' (JArr []) ''t0''],
       slept = [30]\<rparr>)"
proof -
  have b: "batch_update_excel_rows 5 (always (reply 500 lock_body None)) ''item'' ''Sheet1''
       [(5, [JNum 1])] ''D'' example_client world0 =
     (Inl (Exception (''Failed to batch update Excel: '' @ lock_body)), example_client,
      \<lparr>sent = [batch_request ''item'' ''Sheet1'' [(5, [JNum 1])] ''D'' ''t0''], slept = []\<rparr>)"
    by (simp add: batch_update_excel_rows.simps(2)[of 4, simplified] http_def Let_def always_def
        reply_def world0_def example_client_def)
  have a: "append_rows_to_table (first_then (reply 429 lock_body None) (reply 201 ''null'' (Some JNull)))
       ''item'' ''Table1'' (JArr []) example_client world0 =
     (Inr JNull, example_client,
      \<lparr>sent = [append_request ''item'' ''Table1'' (JArr []) ''t0'',
               append_request ''item'' ''Table1'' (JArr []) ''t0''],
       slept = [30]\<rparr>)"
    apply (subst append_rows_to_table.simps)
    apply (simp add: http_def Let_def first_then_def reply_def world0_def example_client_def
        MAX_RETRIES_def retry_after_def py_int_30 sleep_def SLEEP_MAX_val)
    apply (subst append_rows_to_table.simps)
    apply (simp add: http_def Let_def first_then_def reply_def LOCK_MARKER_def MAX_RETRIES_def)
    done
  show ?thesis
    using a b by (simp add: reply_def lock_body_marked example_client_def MAX_RETRIES_def)
qed

lemma append_rows_to_table_bounded:
  "length (sent (snd (snd (append_rows_to_table srv item tbl vals c w)))) \<le>
     Suc (length (sent w) + nat (max_retries c)) \<and>
   length (slept (snd (snd (append_rows_to_table srv item tbl vals c w)))) \<le>
     length (slept w) + nat (max_retries c)"
proof (induction srv item tbl vals c w rule: append_rows_to_table.induct)
  case (1 srv item tbl vals c w)
  let ?rq = "append_request item tbl vals (token c)"
  let ?r = "srv (length (sent w)) ?rq"
  let ?w1 = "w\<lparr>sent := sent w @ [?rq]\<rparr>"
  let ?c1 = "c\<lparr>max_retries := max_retries c - 1\<rparr>"
  have h: "http srv ?rq w = (?r, ?w1)" by (simp add: http_def)
  note ih1 = "1.IH"(1)[OF refl refl refl _ refl]
  note ih2 = "1.IH"(2)[OF refl refl refl _ _ refl]
  consider
      (throttle) "status_code ?r = 429" "0 < max_retries c"
    | (lock) "\<not> (status_code ?r = 429 \<and> 0 < max_retries c)"
        "str_contains LOCK_MARKER (resp_text ?r)" "0 < max_retries c"
    | (settle) "\<not> (status_code ?r = 429 \<and> 0 < max_retries c)"
        "\<not> (str_contains LOCK_MARKER (resp_text ?r) \<and> 0 < max_retries c)"
    by blast
  then show ?case
  proof cases
    case throttle
    show ?thesis
    proof (cases "retry_after ?r")
      case (Inl e)
      then show ?thesis using throttle
        by (subst (1 2) append_rows_to_table.simps) (simp add: h Let_def)
    next
      case (Inr d)
      show ?thesis
      proof (cases "sleep d ?w1")
        case (Inl e)
        then show ?thesis using throttle Inr
          by (subst (1 2) append_rows_to_table.simps) (simp add: h Let_def)
      next
        case sl: (Inr w2)
        have w2: "sent w2 = sent w @ [?rq]" "slept w2 = slept w @ [d]"
          using sl by (simp_all add: sleep_sent)
        have "append_rows_to_table srv item tbl vals c w =
            append_rows_to_table srv item tbl vals ?c1 w2"
          using throttle Inr sl by (subst append_rows_to_table.simps) (simp add: h Let_def)
        moreover have "nat (max_retries c) = Suc (nat (max_retries c - 1))"
          using throttle(2) by arith
        ultimately show ?thesis
          using ih1[of d w2] throttle Inr sl by (simp add: h w2)
      qed
    qed
  next
    case lock
    define w2 where "w2 = ?w1\<lparr>slept := slept ?w1 @ [10]\<rparr>"
    have sl: "sleep 10 ?w1 = Inr w2" and w2: "sent w2 = sent w @ [?rq]"
        "slept w2 = slept w @ [10]"
      by (simp_all add: sleep_10 w2_def)
    have "append_rows_to_table srv item tbl vals c w =
        append_rows_to_table srv item tbl vals ?c1 w2"
      using lock sl by (subst append_rows_to_table.simps) (simp add: h Let_def)
    moreover have "nat (max_retries c) = Suc (nat (max_retries c - 1))"
      using lock(3) by arith
    ultimately show ?thesis
      using ih2[of w2] lock sl by (simp add: h w2)
  next
    case settle
    then show ?thesis
      by (subst (1 2) append_rows_to_table.simps)
        (auto simp add: h Let_def split: option.splits)
  qed
qed

text \<open>
  C3, amended. \<open>append_rows_to_table\<close>: a response whose status is not 429 and whose body
  contains the lock marker, received while the budget is positive, decrements the budget,
  sleeps 10 and retries the whole operation; a 429 response received while the budget is
  positive is handled as throttling, marker or not (the budget is decremented, the delay
  of the response is slept, the operation is retried); one call sends at most one request
  more than the budget it started with and sleeps at most as often as that budget.
  \<open>batch_update_excel_rows\<close> looks for the marker only in a response of status 200: a
  status other than 200 and 429 raises at once, marker or not; on a 200 response with the
  marker, received while the budget is positive, it sleeps 10 and retries the whole
  operation; the retry runs with the budget decremented by one when the budget was at
  \<open>MAX_RETRIES\<close> (for a smaller budget, the budget that the retry runs with is left
  open).
\<close>

theorem lock_contention_retry:
  "(status_code (srv (length (sent w)) (append_request item tbl vals (token c))) \<noteq> 429 \<and>
    str_contains LOCK_MARKER
      (resp_text (srv (length (sent w)) (append_request item tbl vals (token c)))) \<and>
    0 < max_retries c \<longrightarrow>
    append_rows_to_table srv item tbl vals c w =
      append_rows_to_table srv item tbl vals (c\<lparr>max_retries := max_retries c - 1\<rparr>)
        (w\<lparr>sent := sent w @ [append_request item tbl vals (token c)],
           slept := slept w @ [10]\<rparr>)) \<and>
   (\<forall>d. status_code (srv (length (sent w)) (append_request item tbl vals (token c))) = 429 \<and>
        0 < max_retries c \<and>
        retry_after (srv (length (sent w)) (append_request item tbl vals (token c))) = Inr d \<and>
        0 \<le> d \<and> d \<le> SLEEP_MAX \<longrightarrow>
        append_rows_to_table srv item tbl vals c w =
          append_rows_to_table srv item tbl vals (c\<lparr>max_retries := max_retries c - 1\<rparr>)
            (w\<lparr>sent := sent w @ [append_request item tbl vals (token c)],
               slept := slept w @ [d]\<rparr>)) \<and>
   length (sent (snd (snd (append_rows_to_table srv item tbl vals c w)))) \<le>
     Suc (length (sent w) + nat (max_retries c)) \<and>
   length (slept (snd (snd (append_rows_to_table srv item tbl vals c w)))) \<le>
     length (slept w) + nat (max_retries c) \<and>
   (status_code (srv (length (sent w)) (batch_request item ws rows ec (token c))) \<noteq> 200 \<and>
    status_code (srv (length (sent w)) (batch_request item ws rows ec (token c))) \<noteq> 429 \<longrightarrow>
    batch_update_excel_rows (Suc depth) srv item ws rows ec c w =
      (Inl (Exception (''Failed to batch update Excel: '' @
              resp_text (srv (length (sent w)) (batch_request item ws rows ec (token c))))),
       c, w\<lparr>sent := sent w @ [batch_request item ws rows ec (token c)]\<rparr>)) \<and>
   (status_code (srv (length (sent w)) (batch_request item ws rows ec (token c))) = 200 \<and>
    str_contains LOCK_MARKER
      (resp_text (srv (length (sent w)) (batch_request item ws rows ec (token c)))) \<and>
    0 < max_retries c \<longrightarrow>
    (\<exists>b. (max_retries c = MAX_RETRIES \<longrightarrow> b = max_retries c - 1) \<and>
         batch_update_excel_rows (Suc depth) srv item ws rows ec c w =
           batch_update_excel_rows depth srv item ws rows ec (c\<lparr>max_retries := b\<rparr>)
             (w\<lparr>sent := sent w @ [batch_request item ws rows ec (token c)],
                slept := slept w @ [10]\<rparr>)))"
proof (intro conjI impI allI)
  assume "status_code (srv (length (sent w)) (append_request item tbl vals (token c))) \<noteq> 429 \<and>
    str_contains LOCK_MARKER
      (resp_text (srv (length (sent w)) (append_request item tbl vals (token c)))) \<and>
    0 < max_retries c"
  then show "append_rows_to_table srv item tbl vals c w =
      append_rows_to_table srv item tbl vals (c\<lparr>max_retries := max_retries c - 1\<rparr>)
        (w\<lparr>sent := sent w @ [append_request item tbl vals (token c)],
           slept := slept w @ [10]\<rparr>)"
    by (subst append_rows_to_table.simps) (simp add: http_def sleep_10 Let_def)
next
  fix d
  assume "status_code (srv (length (sent w)) (append_request item tbl vals (token c))) = 429 \<and>
        0 < max_retries c \<and>
        retry_after (srv (length (sent w)) (append_request item tbl vals (token c))) = Inr d \<and>
        0 \<le> d \<and> d \<le> SLEEP_MAX"
  then show "append_rows_to_table srv item tbl vals c w =
          append_rows_to_table srv item tbl vals (c\<lparr>max_retries := max_retries c - 1\<rparr>)
            (w\<lparr>sent := sent w @ [append_request item tbl vals (token c)],
               slept := slept w @ [d]\<rparr>)"
    by (subst append_rows_to_table.simps) (simp add: http_def sleep_ok Let_def)
next
  show "length (sent (snd (snd (append_rows_to_table srv item tbl vals c w)))) \<le>
     Suc (length (sent w) + nat (max_retries c))"
    using append_rows_to_table_bounded by blast
next
  show "length (slept (snd (snd (append_rows_to_table srv item tbl vals c w)))) \<le>
     length (slept w) + nat (max_retries c)"
    using append_rows_to_table_bounded by blast
next
  assume "status_code (srv (length (sent w)) (batch_request item ws rows ec (token c))) \<noteq> 200 \<and>
    status_code (srv (length (sent w)) (batch_request item ws rows ec (token c))) \<noteq> 429"
  then show "batch_update_excel_rows (Suc depth) srv item ws rows ec c w =
      (Inl (Exception (''Failed to batch update Excel: '' @
              resp_text (srv (length (sent w)) (batch_request item ws rows ec (token c))))),
       c, w\<lparr>sent := sent w @ [batch_request item ws rows ec (token c)]\<rparr>)"
    by (subst batch_update_excel_rows.simps) (simp add: http_def Let_def)
next
  assume "status_code (srv (length (sent w)) (batch_request item ws rows ec (token c))) = 200 \<and>
    str_contains LOCK_MARKER
      (resp_text (srv (length (sent w)) (batch_request item ws rows ec (token c)))) \<and>
    0 < max_retries c"
  then have "batch_update_excel_rows (Suc depth) srv item ws rows ec c w =
          batch_update_excel_rows depth srv item ws rows ec (c\<lparr>max_retries := MAX_RETRIES - 1\<rparr>)
            (w\<lparr>sent := sent w @ [batch_request item ws rows ec (token c)],
               slept := slept w @ [10]\<rparr>)"
    by (subst batch_update_excel_rows.simps)
      (simp add: http_def sleep_10 Let_def MAX_RETRIES_def)
  then show "\<exists>b. (max_retries c = MAX_RETRIES \<longrightarrow> b = max_retries c - 1) \<and>
         batch_update_excel_rows (Suc depth) srv item ws rows ec c w =
           batch_update_excel_rows depth srv item ws rows ec (c\<lparr>max_retries := b\<rparr>)
             (w\<lparr>sent := sent w @ [batch_request item ws rows ec (token c)],
                slept := slept w @ [10]\<rparr>)"
    by (intro exI[of _ "MAX_RETRIES - 1"]) simp
qed

theorem lock_contention_retry_witness:
  "(status_code (first_then (reply 200 lock_body None) (reply 201 ''null'' (Some JNull))
       (length (sent world0)) (append_request ''item'' ''Table1'' (JArr []) (token example_client)))
     \<noteq> 429 \<and>
    str_contains LOCK_MARKER
      (resp_text (first_then (reply 200 lock_body None) (reply 201 ''null'' (Some JNull))
         (length (sent world0))
         (append_request ''item'' ''Table1'' (JArr []) (token example_client)))) \<and>
    0 < max_retries example_client) \<and>
   (status_code (first_then (reply_after ''7'') (reply 201 ''null'' (Some JNull))
       (length (sent world0)) (append_request ''item'' ''Table1'' (JArr []) (token example_client)))
     = 429 \<and>
    retry_after (first_then (reply_after ''7'') (reply 201 ''null'' (Some JNull))
       (length (sent world0)) (append_request ''item'' ''Table1'' (JArr []) (token example_client)))
     = Inr 7 \<and> (0::int) \<le> 7 \<and> 7 \<le> SLEEP_MAX) \<and>
   (status_code (always (reply 500 lock_body None) (length (sent world0))
       (batch_request ''item'' ''Sheet1'' [(5, [JNum 1])] ''D'' (token example_client))) \<noteq> 200 \<and>
    status_code (always (reply 500 lock_body None) (length (sent world0))
       (batch_request ''item'' ''Sheet1'' [(5, [JNum 1])] ''D'' (token example_client))) \<noteq> 429) \<and>
   (status_code (first_then (reply 200 lock_body None) (reply 200 ''null'' (Some JNull))
       (length (sent world0))
       (batch_request ''item'' ''Sheet1'' [(5, [JNum 1])] ''D'' (token example_client))) = 200 \<and>
    str_contains LOCK_MARKER
      (resp_text (first_then (reply 200 lock_body None) (reply 200 ''null'' (Some JNull))
         (length (sent world0))
         (batch_request ''item'' ''Sheet1'' [(5, [JNum 1])] ''D'' (token example_client)))) \<and>
    max_retries example_client = MAX_RETRIES) \<and>
   append_rows_to_table (first_then (reply 200 lock_body None) (reply 201 ''null'' (Some JNull)))
       ''item'' ''Table1'' (JArr []) example_client world0 =
     (Inr JNull, example_client,
      \<lparr>sent = [append_request ''item'' ''Table1'' (JArr []) ''t0'',
               append_request ''item'' ''Table1'' (JArr []) ''t0''],
       slept = [10]\<rparr>) \<and>
   append_rows_to_table (first_then (reply_after ''7'') (reply 201 ''null'' (Some JNull)))
       ''item'' ''Table1'' (JArr []) example_client world0 =
     (Inr JNull, example_client,
      \<lparr>sent = [append_request ''item'' ''Table1'' (JArr []) ''t0'',
               append_request ''item'' ''Table1'' (JArr []) ''t0''],
       slept = [7]\<rparr>) \<and>
   batch_update_excel_rows (Suc 0) (always (reply 500 lock_body None)) ''item'' ''Sheet1''
       [(5, [JNum 1])] ''D'' example_client world0 =
     (Inl (Exception (''Failed to batch update Excel: '' @ lock_body)), example_client,
      \<lparr>sent = [batch_request ''item'' ''Sheet1'' [(5, [JNum 1])] ''D'' ''t0''], slept = []\<rparr>) \<and>
   batch_update_excel_rows (Suc (Suc 0))
       (first_then (reply 200 lock_body None) (reply 200 ''null'' (Some JNull)))
       ''item'' ''Sheet1'' [(5, [JNum 1])] ''D'' example_client world0 =
     (Inr JNull, example_client,
      \<lparr>sent = [batch_request ''item'' ''Sheet1'' [(5, [JNum 1])] ''D'' ''t0'',
               batch_request ''item'' ''Sheet1'' [(5, [JNum 1])] ''D'' ''t0''],
       slept = [10]\<rparr>)"
proof -
  let ?sa = "first_then (reply 200 lock_body None) (reply 201 ''null'' (Some JNull))"
  let ?st = "first_then (reply_after ''7'') (reply 201 ''null'' (Some JNull))"
  let ?sf = "always (reply 500 lock_body None)"
  let ?sb = "first_then (reply 200 lock_body None) (reply 200 ''null'' (Some JNull))"
  let ?ra = "append_request ''item'' ''Table1'' (JArr []) (token example_client)"
  let ?rb = "batch_request ''item'' ''Sheet1'' [(5, [JNum 1])] ''D'' (token example_client)"
  have tok: "token example_client = ''t0''" and bud: "max_retries example_client = 3"
    by (simp_all add: example_client_def MAX_RETRIES_def)
  have ha: "status_code (?sa (length (sent world0)) ?ra) \<noteq> 429 \<and>
    str_contains LOCK_MARKER (resp_text (?sa (length (sent world0)) ?ra)) \<and>
    0 < max_retries example_client"
    by (simp add: first_then_def reply_def world0_def lock_body_marked bud)
  have ht: "status_code (?st (length (sent world0)) ?ra) = 429 \<and>
    0 < max_retries example_client \<and>
    retry_after (?st (length (sent world0)) ?ra) = Inr 7 \<and> (0::int) \<le> 7 \<and> 7 \<le> SLEEP_MAX"
    by (simp add: first_then_def reply_after_def world0_def retry_after_def py_int_7 bud
        SLEEP_MAX_val)
  have hf: "status_code (?sf (length (sent world0)) ?rb) \<noteq> 200 \<and>
    status_code (?sf (length (sent world0)) ?rb) \<noteq> 429"
    by (simp add: always_def reply_def)
  have hb: "status_code (?sb (length (sent world0)) ?rb) = 200 \<and>
    str_contains LOCK_MARKER (resp_text (?sb (length (sent world0)) ?rb)) \<and>
    0 < max_retries example_client"
    by (simp add: first_then_def reply_def world0_def lock_body_marked bud)
  note t = lock_contention_retry[of _ world0 "''item''" _ _ example_client]
  have a: "append_rows_to_table ?sa ''item'' ''Table1'' (JArr []) example_client world0 =
     (Inr JNull, example_client,
      \<lparr>sent = [append_request ''item'' ''Table1'' (JArr []) ''t0'',
               append_request ''item'' ''Table1'' (JArr []) ''t0''],
       slept = [10]\<rparr>)"
    using ha t[of ?sa "''Table1''" "JArr []", THEN conjunct1]
    apply (simp add: tok bud world0_def)
    apply (subst append_rows_to_table.simps)
    apply (simp add: http_def Let_def first_then_def reply_def LOCK_MARKER_def MAX_RETRIES_def
        example_client_def)
    done
  have a2: "append_rows_to_table ?st ''item'' ''Table1'' (JArr []) example_client world0 =
     (Inr JNull, example_client,
      \<lparr>sent = [append_request ''item'' ''Table1'' (JArr []) ''t0'',
               append_request ''item'' ''Table1'' (JArr []) ''t0''],
       slept = [7]\<rparr>)"
    using ht t[of ?st "''Table1''" "JArr []", THEN conjunct2, THEN conjunct1, rule_format, of 7]
    apply (simp add: tok bud world0_def)
    apply (subst append_rows_to_table.simps)
    apply (simp add: http_def Let_def first_then_def reply_def LOCK_MARKER_def MAX_RETRIES_def
        example_client_def)
    done
  have f: "batch_update_excel_rows (Suc 0) ?sf ''item'' ''Sheet1''
       [(5, [JNum 1])] ''D'' example_client world0 =
     (Inl (Exception (''Failed to batch update Excel: '' @ lock_body)), example_client,
      \<lparr>sent = [batch_request ''item'' ''Sheet1'' [(5, [JNum 1])] ''D'' ''t0''], slept = []\<rparr>)"
    using hf t[of ?sf _ _ "''Sheet1''" "[(5, [JNum 1])]" "''D''" 0]
    by (simp add: tok world0_def always_def reply_def)
  have hm: "max_retries example_client = MAX_RETRIES"
    by (simp add: example_client_def)
  obtain b where "b = max_retries example_client - 1"
    and b: "batch_update_excel_rows (Suc (Suc 0)) ?sb ''item'' ''Sheet1''
        [(5, [JNum 1])] ''D'' example_client world0 =
      batch_update_excel_rows (Suc 0) ?sb ''item'' ''Sheet1'' [(5, [JNum 1])] ''D''
        (example_client\<lparr>max_retries := b\<rparr>)
        (world0\<lparr>sent := sent world0 @ [?rb], slept := slept world0 @ [10]\<rparr>)"
    using hb hm
      t[of ?sb _ _ "''Sheet1''" "[(5, [JNum 1])]" "''D''" "Suc 0", THEN conjunct2, THEN conjunct2,
        THEN conjunct2, THEN conjunct2, THEN conjunct2]
    by blast
  have "batch_update_excel_rows (Suc (Suc 0)) ?sb ''item'' ''Sheet1''
        [(5, [JNum 1])] ''D'' example_client world0 =
     (Inr JNull, example_client,
      \<lparr>sent = [batch_request ''item'' ''Sheet1'' [(5, [JNum 1])] ''D'' ''t0'',
               batch_request ''item'' ''Sheet1'' [(5, [JNum 1])] ''D'' ''t0''],
       slept = [10]\<rparr>)"
    unfolding b
    apply (subst batch_update_excel_rows.simps)
    apply (simp add: http_def Let_def first_then_def reply_def LOCK_MARKER_def MAX_RETRIES_def
        example_client_def world0_def)
    done
  then show ?thesis
    using ha ht hf hb hm a a2 f by simp
qed

subsection \<open>Batch addressing\<close>

lemma build_requests_acc:
  "build_requests item ws ec idx rows acc = acc @ build_requests item ws ec idx rows []"
proof (induction rows arbitrary: idx acc)
  case Nil
  show ?case by simp
next
  case (Cons row rows)
  show ?case
    by (simp add: Let_def Cons.IH[of "Suc idx" "acc @ _"] Cons.IH[of "Suc idx" "[_]"])
qed

lemma build_requests_length:
  "length (build_requests item ws ec idx rows acc) = length acc + length rows"
  by (induction rows arbitrary: idx acc) (simp_all add: Let_def)

lemma build_requests_nth:
  "i < length rows \<Longrightarrow>
   build_requests item ws ec idx rows [] ! i =
     JObj [(''id'', JStr (py_str (int (idx + i) + 1))),
           (''method'', JStr ''PATCH''),
           (''url'', JStr (''/me/drive/items/'' @ item @ ''/workbook/worksheets(''
                    @ [CHR 0x27] @ ws @ [CHR 0x27] @ '')/range(address=''
                    @ [CHR 0x27] @ ''A'' @ py_str (fst (rows ! i)) @ '':'' @ ec
                    @ py_str (fst (rows ! i)) @ [CHR 0x27] @ '')'')),
           (''body'', JObj [(''values'', JArr [JArr (snd (rows ! i))])]),
           (''headers'', JObj [(''Content-Type'', JStr ''application/json'')])]"
proof (induction rows arbitrary: idx i)
  case Nil
  then show ?case by simp
next
  case (Cons row rows)
  show ?case
  proof (cases i)
    case 0
    then show ?thesis
      by (simp add: Let_def build_requests_acc[of _ _ _ "Suc idx" rows "[_]"])
  next
    case (Suc k)
    then have "k < length rows" using Cons.prems by simp
    from Cons.IH[OF this, of "Suc idx"] Suc show ?thesis
      by (simp add: Let_def build_requests_acc[of _ _ _ "Suc idx" rows "[_]"])
  qed
qed

lemma batch_update_excel_rows_sent:
  "\<exists>k. sent (snd (snd (batch_update_excel_rows depth srv item ws rows ec c w))) =
         sent w @ replicate k (batch_request item ws rows ec (token c)) \<and>
       (0 < depth \<longrightarrow> 0 < k)"
proof (induction depth arbitrary: c w)
  case 0
  show ?case by (simp add: batch_update_excel_rows.simps)
next
  case (Suc d)
  let ?rq = "batch_request item ws rows ec (token c)"
  let ?r = "srv (length (sent w)) ?rq"
  let ?w1 = "w\<lparr>sent := sent w @ [?rq]\<rparr>"
  let ?c1 = "c\<lparr>max_retries := max_retries c - 1\<rparr>"
  let ?c3 = "c\<lparr>max_retries := MAX_RETRIES - 1\<rparr>"
  let ?call = "batch_update_excel_rows (Suc d) srv item ws rows ec c w"
  have h: "http srv ?rq w = (?r, ?w1)" by (simp add: http_def)
  have m: "0 < MAX_RETRIES" by (simp add: MAX_RETRIES_def)
  consider
      (throttle) "status_code ?r = 429" "0 < max_retries c"
    | (fail) "\<not> (status_code ?r = 429 \<and> 0 < max_retries c)" "status_code ?r \<noteq> 200"
    | (lock) "\<not> (status_code ?r = 429 \<and> 0 < max_retries c)" "status_code ?r = 200"
        "str_contains LOCK_MARKER (resp_text ?r)"
    | (settle) "\<not> (status_code ?r = 429 \<and> 0 < max_retries c)" "status_code ?r = 200"
        "\<not> str_contains LOCK_MARKER (resp_text ?r)"
    by blast
  then have "(\<exists>c' w2. token c' = token c \<and> sent w2 = sent w @ [?rq] \<and>
           ?call = batch_update_excel_rows d srv item ws rows ec c' w2) \<or>
        sent (snd (snd ?call)) = sent w @ [?rq]"
  proof cases
    case throttle
    show ?thesis
    proof (cases "retry_after ?r")
      case (Inl e)
      then have "sent (snd (snd ?call)) = sent w @ [?rq]"
        using throttle by (subst batch_update_excel_rows.simps) (simp add: h Let_def)
      then show ?thesis ..
    next
      case (Inr dl)
      show ?thesis
      proof (cases "sleep dl ?w1")
        case (Inl e)
        then have "sent (snd (snd ?call)) = sent w @ [?rq]"
          using throttle Inr by (subst batch_update_excel_rows.simps) (simp add: h Let_def)
        then show ?thesis ..
      next
        case sl: (Inr w2)
        have "sent w2 = sent w @ [?rq]"
          using sl by (simp add: sleep_sent)
        moreover have "?call = batch_update_excel_rows d srv item ws rows ec ?c1 w2"
          using throttle Inr sl by (subst batch_update_excel_rows.simps) (simp add: h Let_def)
        moreover have "token ?c1 = token c" by simp
        ultimately show ?thesis by blast
      qed
    qed
  next
    case fail
    then have "sent (snd (snd ?call)) = sent w @ [?rq]"
      by (subst batch_update_excel_rows.simps) (auto simp add: h Let_def)
    then show ?thesis ..
  next
    case lock
    define w2 where "w2 = ?w1\<lparr>slept := slept ?w1 @ [10]\<rparr>"
    have sl: "sleep 10 ?w1 = Inr w2" and w2: "sent w2 = sent w @ [?rq]"
      by (simp_all add: sleep_10 w2_def)
    have "?call = batch_update_excel_rows d srv item ws rows ec ?c3 w2"
      using lock sl m by (subst batch_update_excel_rows.simps) (auto simp add: h Let_def)
    moreover have "token ?c3 = token c" by simp
    ultimately show ?thesis using w2 by blast
  next
    case settle
    then have "sent (snd (snd ?call)) = sent w @ [?rq]"
      by (subst batch_update_excel_rows.simps) (auto simp add: h Let_def split: option.splits)
    then show ?thesis ..
  qed
  then show ?case
  proof
    assume "\<exists>c' w2. token c' = token c \<and> sent w2 = sent w @ [?rq] \<and>
           batch_update_excel_rows (Suc d) srv item ws rows ec c w =
           batch_update_excel_rows d srv item ws rows ec c' w2"
    then obtain c' w2 where t: "token c' = token c" and s: "sent w2 = sent w @ [?rq]"
      and e: "batch_update_excel_rows (Suc d) srv item ws rows ec c w =
           batch_update_excel_rows d srv item ws rows ec c' w2"
      by blast
    from Suc.IH[of c' w2] obtain k where
      "sent (snd (snd (batch_update_excel_rows d srv item ws rows ec c' w2))) =
         sent w2 @ replicate k (batch_request item ws rows ec (token c'))"
      by blast
    then have "sent (snd (snd (batch_update_excel_rows (Suc d) srv item ws rows ec c w))) =
         sent w @ replicate (Suc k) ?rq"
      by (simp add: e t s)
    then show ?thesis by blast
  next
    assume "sent (snd (snd (batch_update_excel_rows (Suc d) srv item ws rows ec c w))) =
          sent w @ [?rq]"
    then have "sent (snd (snd (batch_update_excel_rows (Suc d) srv item ws rows ec c w))) =
          sent w @ replicate (Suc 0) ?rq"
      by simp
    then show ?thesis by blast
  qed
qed

text \<open>
  C5: \<open>batch_update_excel_rows\<close> builds one sub-request per input row. The sub-request
  for the row at position \<open>i\<close> (from 0) with row number \<open>r\<close> has the id \<open>str(i + 1)\<close>, the
  method PATCH, a URL that addresses the range \<open>A{r}:{end_column}{r}\<close> and a body whose
  \<open>values\<close> is the row's cells nested once more. The whole list is the \<open>requests\<close> field
  of one POST to the \<open>$batch\<close> endpoint; the call sends that request, and every request
  it sends is that one.
\<close>

theorem batch_addressing:
  "length (build_requests item ws ec 0 rows []) = length rows \<and>
   (\<forall>i<length rows.
      build_requests item ws ec 0 rows [] ! i =
        JObj [(''id'', JStr (py_str (int i + 1))),
              (''method'', JStr ''PATCH''),
              (''url'', JStr (''/me/drive/items/'' @ item @ ''/workbook/worksheets(''
                       @ [CHR 0x27] @ ws @ [CHR 0x27] @ '')/range(address=''
                       @ [CHR 0x27] @ ''A'' @ py_str (fst (rows ! i)) @ '':'' @ ec
                       @ py_str (fst (rows ! i)) @ [CHR 0x27] @ '')'')),
              (''body'', JObj [(''values'', JArr [JArr (snd (rows ! i))])]),
              (''headers'', JObj [(''Content-Type'', JStr ''application/json'')])]) \<and>
   http_method (batch_request item ws rows ec tok) = ''POST'' \<and>
   url (batch_request item ws rows ec tok) = GRAPH @ ''/$batch'' \<and>
   json_payload (batch_request item ws rows ec tok) =
     Some (JObj [(''requests'', JArr (build_requests item ws ec 0 rows []))]) \<and>
   (\<exists>k. sent (snd (snd (batch_update_excel_rows (Suc depth) srv item ws rows ec c w))) =
          sent w @ replicate (Suc k) (batch_request item ws rows ec (token c)))"
proof -
  obtain k where k: "sent (snd (snd (batch_update_excel_rows (Suc depth) srv item ws rows ec c w))) =
          sent w @ replicate k (batch_request item ws rows ec (token c))" and "0 < k"
    using batch_update_excel_rows_sent[of "Suc depth" srv item ws rows ec c w] by auto
  then obtain k' where "k = Suc k'" by (cases k) auto
  then have "\<exists>k. sent (snd (snd (batch_update_excel_rows (Suc depth) srv item ws rows ec c w))) =
          sent w @ replicate (Suc k) (batch_request item ws rows ec (token c))"
    using k by blast
  then show ?thesis
    using build_requests_nth[of _ rows item ws ec 0]
    by (simp add: build_requests_length batch_request_def)
qed

lemma py_str_small: "py_str 1 = ''1''" "py_str 2 = ''2''" "py_str 5 = ''5''" "py_str 9 = ''9''"
  by code_simp+

text \<open>The rows 5 and 9 with end column D.\<close>

text \<open>
  The rows 5 and 9 with end column D; against a server that accepts the batch, the call
  sends the one request.
\<close>

theorem batch_addressing_witness:
  "build_requests ''item'' ''Sheet1'' ''D'' 0 [(5, [JStr ''a'']), (9, [JStr ''b'', JNum 2])] [] =
     [JObj [(''id'', JStr ''1''),
            (''method'', JStr ''PATCH''),
            (''url'', JStr (''/me/drive/items/item/workbook/worksheets('' @ [CHR 0x27]
                     @ ''Sheet1'' @ [CHR 0x27] @ '')/range(address='' @ [CHR 0x27]
                     @ ''A5:D5'' @ [CHR 0x27] @ '')'')),
            (''body'', JObj [(''values'', JArr [JArr [JStr ''a'']])]),
            (''headers'', JObj [(''Content-Type'', JStr ''application/json'')])],
      JObj [(''id'', JStr ''2''),
            (''method'', JStr ''PATCH''),
            (''url'', JStr (''/me/drive/items/item/workbook/worksheets('' @ [CHR 0x27]
                     @ ''Sheet1'' @ [CHR 0x27] @ '')/range(address='' @ [CHR 0x27]
                     @ ''A9:D9'' @ [CHR 0x27] @ '')'')),
            (''body'', JObj [(''values'', JArr [JArr [JStr ''b'', JNum 2]])]),
            (''headers'', JObj [(''Content-Type'', JStr ''application/json'')])]] \<and>
   sent (snd (snd (batch_update_excel_rows (Suc 0) (always (reply 200 ''null'' (Some JNull)))
       ''item'' ''Sheet1'' [(5, [JStr ''a'']), (9, [JStr ''b'', JNum 2])] ''D'' example_client
       world0))) =
     [batch_request ''item'' ''Sheet1'' [(5, [JStr ''a'']), (9, [JStr ''b'', JNum 2])] ''D''
        ''t0'']"
proof -
  let ?rows = "[(5, [JStr ''a'']), (9, [JStr ''b'', JNum 2])] :: (int \<times> jvalue list) list"
  let ?l = "build_requests ''item'' ''Sheet1'' ''D'' 0 ?rows []"
  note t = batch_addressing[of "''item''" "''Sheet1''" "''D''" ?rows "''t0''" 0
      "always (reply 200 ''null'' (Some JNull))" example_client world0]
  have len: "length ?l = 2" using t by simp
  have n0: "?l ! 0 = JObj [(''id'', JStr ''1''),
            (''method'', JStr ''PATCH''),
            (''url'', JStr (''/me/drive/items/item/workbook/worksheets('' @ [CHR 0x27]
                     @ ''Sheet1'' @ [CHR 0x27] @ '')/range(address='' @ [CHR 0x27]
                     @ ''A5:D5'' @ [CHR 0x27] @ '')'')),
            (''body'', JObj [(''values'', JArr [JArr [JStr ''a'']])]),
            (''headers'', JObj [(''Content-Type'', JStr ''application/json'')])]"
    using t[THEN conjunct2, THEN conjunct1, rule_format, of 0] by (simp add: py_str_small)
  have n1: "?l ! 1 = JObj [(''id'', JStr ''2''),
            (''method'', JStr ''PATCH''),
            (''url'', JStr (''/me/drive/items/item/workbook/worksheets('' @ [CHR 0x27]
                     @ ''Sheet1'' @ [CHR 0x27] @ '')/range(address='' @ [CHR 0x27]
                     @ ''A9:D9'' @ [CHR 0x27] @ '')'')),
            (''body'', JObj [(''values'', JArr [JArr [JStr ''b'', JNum 2]])]),
            (''headers'', JObj [(''Content-Type'', JStr ''application/json'')])]"
    using t[THEN conjunct2, THEN conjunct1, rule_format, of 1] by (simp add: py_str_small)
  have "?l = [?l ! 0, ?l ! 1]"
    using len by (cases ?l; cases "tl ?l") auto
  then have l: "?l = [JObj [(''id'', JStr ''1''),
            (''method'', JStr ''PATCH''),
            (''url'', JStr (''/me/drive/items/item/workbook/worksheets('' @ [CHR 0x27]
                     @ ''Sheet1'' @ [CHR 0x27] @ '')/range(address='' @ [CHR 0x27]
                     @ ''A5:D5'' @ [CHR 0x27] @ '')'')),
            (''body'', JObj [(''values'', JArr [JArr [JStr ''a'']])]),
            (''headers'', JObj [(''Content-Type'', JStr ''application/json'')])],
      JObj [(''id'', JStr ''2''),
            (''method'', JStr ''PATCH''),
            (''url'', JStr (''/me/drive/items/item/workbook/worksheets('' @ [CHR 0x27]
                     @ ''Sheet1'' @ [CHR 0x27] @ '')/range(address='' @ [CHR 0x27]
                     @ ''A9:D9'' @ [CHR 0x27] @ '')'')),
            (''body'', JObj [(''values'', JArr [JArr [JStr ''b'', JNum 2]])]),
            (''headers'', JObj [(''Content-Type'', JStr ''application/json'')])]]"
    unfolding n0 n1 .
  have s: "sent (snd (snd (batch_update_excel_rows (Suc 0) (always (reply 200 ''null'' (Some JNull)))
       ''item'' ''Sheet1'' ?rows ''D'' example_client world0))) =
     [batch_request ''item'' ''Sheet1'' ?rows ''D'' ''t0'']"
    by (subst batch_update_excel_rows.simps)
      (simp add: http_def Let_def always_def reply_def LOCK_MARKER_def world0_def
        example_client_def)
  show ?thesis
    using l s by simp
qed

subsection \<open>A cache file that cannot be read\<close>











text \<open>
  Where the cache cannot be written the constructor raises: a directory at the path of
  the cache file, and a cache file named without a directory part.
\<close>

lemma init_write_raises:
  "fst (init example_lib ''client'' ''tenant'' cache_path [] directory_files) =
     Inl IsADirectoryError"
  "fst (init example_lib ''client'' ''tenant'' ''msal_token_cache.bin'' [] no_files) =
     Inl FileNotFoundError"
proof -
  have d: "py_dirname ''msal_token_cache.bin'' = []" by code_simp
  show "fst (init example_lib ''client'' ''tenant'' cache_path [] directory_files) =
     Inl IsADirectoryError"
    by (simp add: init_def load_cache_def get_token_or_authenticate_def example_lib_def
        save_cache_if_changed_def no_token_def access_token_def Let_def
        write_text_def py_dirname_cache_path directory_files_def)
  show "fst (init example_lib ''client'' ''tenant'' ''msal_token_cache.bin'' [] no_files) =
     Inl FileNotFoundError"
    by (simp add: init_def load_cache_def get_token_or_authenticate_def example_lib_def
        save_cache_if_changed_def no_token_def access_token_def Let_def
        write_text_def d no_files_def)
qed

end
